theory Spec2Isabelle
  imports Complex_Main "HOL-Library.Word" "HOL-Library.Monad_Syntax"
begin

section \<open>The G-code writer of libslic3r (GCodeWriter.cpp)\<close>

text \<open>
  A shallow embedding of \<^verbatim>\<open>src/libslic3r/GCodeWriter.cpp\<close>. Conventions:
  \<^item> a C++ \<^verbatim>\<open>double\<close> is the \<^typ>\<open>real\<close> number it denotes; comparisons, negation and
    absolute value of doubles are exact, but the machine's arithmetic on doubles rounds,
    so every sum, difference, product and quotient of the source is an operation of the
    record \<open>double_arith\<close> below, a parameter of the model;
  \<^item> an \<^verbatim>\<open>unsigned int\<close> is a \<^typ>\<open>32 word\<close>, an \<^verbatim>\<open>int\<close> on which the source does
    no arithmetic is an \<^typ>\<open>int\<close>;
  \<^item> a \<^verbatim>\<open>std::string\<close> is a \<^typ>\<open>string\<close>;
  \<^item> a member function that mutates the writer takes the writer and returns the result
    together with the new writer;
  \<^item> a null dereference, an out-of-range index and a failed contract of the source are
    the value \<^term>\<open>None\<close>.
\<close>

subsection \<open>Printing integers\<close>

definition digit_char :: "nat \<Rightarrow> char" where
  "digit_char d = (if d = 0 then CHR ''0'' else if d = 1 then CHR ''1''
     else if d = 2 then CHR ''2'' else if d = 3 then CHR ''3''
     else if d = 4 then CHR ''4'' else if d = 5 then CHR ''5''
     else if d = 6 then CHR ''6'' else if d = 7 then CHR ''7''
     else if d = 8 then CHR ''8'' else CHR ''9'')"

text \<open>The decimal digits of a natural number, most significant first, no leading zero.\<close>

fun to_chars_nat :: "nat \<Rightarrow> string" where
  "to_chars_nat n =
     (if n < 10 then [digit_char n] else to_chars_nat (n div 10) @ [digit_char (n mod 10)])"

declare to_chars_nat.simps [simp del]

text \<open>\<^verbatim>\<open>std::to_chars\<close> on a signed integer, and \<^verbatim>\<open>operator<<\<close> on integers.\<close>

definition to_chars :: "int \<Rightarrow> string" where
  "to_chars v = (if v < 0 then CHR ''-'' # to_chars_nat (nat (- v)) else to_chars_nat (nat v))"

definition show_uint :: "32 word \<Rightarrow> string" where
  "show_uint u = to_chars_nat (unat u)"

subsection \<open>GCodeFormatter::emit_axis\<close>

text \<open>
  The arithmetic of the machine on doubles, and the library functions on doubles the file
  calls. \<open>dadd\<close>, \<open>dsub\<close>, \<open>dmul\<close> and \<open>ddiv\<close> are \<^verbatim>\<open>+\<close>, \<^verbatim>\<open>-\<close>, \<^verbatim>\<open>*\<close> and \<^verbatim>\<open>/\<close> on doubles;
  \<open>round_int64 x\<close> is \<^verbatim>\<open>int64_t(std::round(x))\<close>, whatever the compiled code yields when the
  rounded value is outside the range of \<^verbatim>\<open>int64_t\<close>; \<open>d_atan\<close>, \<open>d_tan\<close> and \<open>d_atan2\<close> are
  \<^verbatim>\<open>atan\<close>, \<^verbatim>\<open>tan\<close> and \<^verbatim>\<open>atan2\<close>; \<open>vec_norm\<close> and \<open>vec_normalized\<close> are Eigen's \<^verbatim>\<open>norm()\<close> and
  \<^verbatim>\<open>normalized()\<close> on a 2D vector (a pair of doubles here); \<open>PI\<close> is the constant of that
  name; \<open>stream_double\<close> is the text \<^verbatim>\<open>operator<<\<close> writes for a double.
\<close>

record double_arith =
  dadd :: "real \<Rightarrow> real \<Rightarrow> real"
  dsub :: "real \<Rightarrow> real \<Rightarrow> real"
  dmul :: "real \<Rightarrow> real \<Rightarrow> real"
  ddiv :: "real \<Rightarrow> real \<Rightarrow> real"
  round_int64 :: "real \<Rightarrow> int"
  d_atan :: "real \<Rightarrow> real"
  d_tan :: "real \<Rightarrow> real"
  d_atan2 :: "real \<Rightarrow> real \<Rightarrow> real"
  vec_norm :: "real \<times> real \<Rightarrow> real"
  vec_normalized :: "real \<times> real \<Rightarrow> real \<times> real"
  PI :: real
  stream_double :: "real \<Rightarrow> string"

text \<open>The table \<^verbatim>\<open>pow_10\<close> of emit_axis.\<close>

definition pow_10 :: "int list" where
  "pow_10 = [1, 10, 100, 1000, 10000, 100000, 1000000, 10000000, 100000000, 1000000000]"

text \<open>
  The loop that drops trailing zero digits: at most \<open>digits\<close> steps, each one looking at the
  character under the pointer and stopping at the first that is not \<open>0\<close>.
\<close>

fun trim_zeros :: "string \<Rightarrow> int \<Rightarrow> nat \<Rightarrow> int" where
  "trim_zeros s p 0 = p"
| "trim_zeros s p (Suc i) = (if s ! nat p \<noteq> CHR ''0'' then p else trim_zeros s (p - 1) i)"

text \<open>
  The text emit_axis writes after the axis letter, for the scaled and rounded value
  \<open>v_int\<close>. The characters from \<^verbatim>\<open>base_ptr\<close> on are the list; \<^verbatim>\<open>ptr_err.ptr\<close> is the offset
  \<open>p\<close> from \<^verbatim>\<open>base_ptr\<close>, which is -1 when the pointer stands before \<^verbatim>\<open>base_ptr\<close>.
\<close>

definition emit_digits :: "int \<Rightarrow> nat \<Rightarrow> string" where
  "emit_digits v_int digits =
    (let s0 = to_chars v_int;
         p0 = length s0;
         writen_digits = p0 - (if v_int < 0 then 1 else 0);
         s1 = (if writen_digits < digits
               then take (p0 - writen_digits) s0 @ replicate (digits - writen_digits) CHR ''0''
                    @ drop (p0 - writen_digits) s0
               else s0);
         p1 = (if writen_digits < digits then p0 + (digits - writen_digits) else p0);
         s2 = take (p1 - digits) s1 @ CHR ''.'' # drop (p1 - digits) s1;
         p2 = trim_zeros s2 (int p1) digits;
         p3 = (if s2 ! nat p2 = CHR ''.'' then p2 - 1 else p2);
         fix = (p3 + 1 = 0 \<or> s2 ! nat p3 = CHR ''-'');
         p4 = (if fix then p3 + 1 else p3);
         s3 = (if fix then s2[nat p4 := CHR ''0''] else s2)
     in take (nat (p4 + 1)) s3)"

text \<open>
  emit_axis appends a blank, the axis letter and the number to the buffer. The value is
  scaled by the power of ten of the table (a double product), rounded and converted to a
  64-bit integer. The assertion \<^verbatim>\<open>digits <= 9\<close> guards the table lookup.
\<close>

definition emit_axis :: "double_arith \<Rightarrow> char \<Rightarrow> real \<Rightarrow> nat \<Rightarrow> string \<Rightarrow> string option"
  where
  "emit_axis M axis v digits buf =
    (if \<not> digits \<le> 9 then None
     else let v_int = round_int64 M (dmul M v (real_of_int (pow_10 ! digits)))
          in Some (buf @ CHR '' '' # axis # emit_digits v_int digits))"

subsection \<open>Data: flavours, configuration, tools, the writer\<close>

text \<open>
  The firmware dialects GCodeWriter.cpp names. \<open>gcfOther\<close> stands for any value of the
  enumeration the file does not name: it takes the default branch everywhere.
\<close>

datatype GCodeFlavor =
    gcfRepRapSprinter | gcfRepRapFirmware | gcfRepetier | gcfTeacup | gcfMakerWare
  | gcfMarlinLegacy | gcfMarlinFirmware | gcfKlipper | gcfSailfish | gcfMach3
  | gcfMachinekit | gcfSmoothie | gcfOther

datatype LiftType = NormalLift | SpiralLift | SlopeLift

datatype Vec2d = Vec2d (x2: real) (y2: real)

datatype Vec3d = Vec3d (x3: real) (y3: real) (z3: real)

definition to_2d :: "Vec3d \<Rightarrow> Vec2d" where
  "to_2d p = Vec2d (x3 p) (y3 p)"

text \<open>
  The options of the print configuration the file reads. A vector option is the function
  its accessor \<^verbatim>\<open>get_at\<close> computes from the index; \<open>extruder_index\<close> is
  \<^verbatim>\<open>get_extruder_index(config, filament_id)\<close>. Both are declared outside GCodeWriter.cpp
  and are parameters here.
\<close>

record PrintConfig =
  gcode_flavor :: GCodeFlavor
  use_relative_e_distances :: bool
  use_firmware_retraction :: bool
  accel_to_decel_enable :: bool
  accel_to_decel_factor :: real
  retract_lift_above :: "int \<Rightarrow> real"
  retract_lift_below :: "int \<Rightarrow> real"
  z_hop :: "int \<Rightarrow> real"
  prime_tower_lift_height :: real
  prime_tower_lift_speed :: real
  travel_speed :: "int \<Rightarrow> real"
  travel_speed_z :: "int \<Rightarrow> real"
  extruder_index :: "32 word \<Rightarrow> int"

text \<open>
  Modelled from the spec: the class Extruder (Extruder.hpp and Extruder.cpp are not among
  the sources). Per tool: the logical filament id, the physical extruder index, the
  cumulative extruded length E, the retracted length, the restart-extra length, and the
  retraction parameters its accessors read from the configuration. Its member functions
  below follow the words of the spec, with the arithmetic of the reals.
\<close>

record Extruder =
  m_id :: "32 word"
  m_extruder_id :: int
  m_E :: real
  m_retracted :: real
  m_restart_extra :: real
  retraction_length :: real
  retract_restart_extra :: real
  retract_before_wipe :: real
  retract_length_toolchange :: real
  retract_restart_extra_toolchange :: real
  retract_speed :: real
  deretract_speed :: real

text \<open>
  Modelled from the spec: \<^verbatim>\<open>extrude(delta)\<close> adds delta to cumulative E and returns the new
  E.
\<close>

definition Extruder_extrude :: "real \<Rightarrow> Extruder \<Rightarrow> real \<times> Extruder" where
  "Extruder_extrude dE e = (m_E e + dE, e\<lparr>m_E := m_E e + dE\<rparr>)"

text \<open>
  Modelled from the spec: \<^verbatim>\<open>retract(length, restart_extra)\<close>: if the tool is not already
  retracted by at least length, decreases E by the outstanding amount and records the
  restart-extra amount, returning the actual E delta applied (zero if already
  sufficiently retracted).
\<close>

definition Extruder_retract :: "real \<Rightarrow> real \<Rightarrow> Extruder \<Rightarrow> real \<times> Extruder" where
  "Extruder_retract len restart_extra e =
    (let to_retract = max 0 (len - m_retracted e)
     in if to_retract > 0
        then (to_retract, e\<lparr>m_E := m_E e - to_retract,
                             m_retracted := m_retracted e + to_retract,
                             m_restart_extra := restart_extra\<rparr>)
        else (to_retract, e))"

text \<open>
  Modelled from the spec: \<^verbatim>\<open>unretract()\<close> returns E to its pre-retraction value plus
  restart-extra, returning the applied delta (zero if not currently retracted).
\<close>

definition Extruder_unretract :: "Extruder \<Rightarrow> real \<times> Extruder" where
  "Extruder_unretract e =
    (let dE = m_retracted e + m_restart_extra e
     in (dE, e\<lparr>m_E := m_E e + dE, m_retracted := 0, m_restart_extra := 0\<rparr>))"

text \<open>Modelled from the spec: \<^verbatim>\<open>reset_E()\<close> zeroes cumulative E.\<close>

definition Extruder_reset_E :: "Extruder \<Rightarrow> Extruder" where
  "Extruder_reset_E e = e\<lparr>m_E := 0\<rparr>"

text \<open>
  The writer. \<open>m_curr_filament_extruder\<close> holds pointers into \<open>m_filament_extruders\<close>: a
  pointer is the index of the element it points to, \<^term>\<open>None\<close> the null pointer.
  \<open>NDEBUG\<close> tells whether the assertions of the source are compiled out. \<open>arith\<close> is the
  arithmetic on doubles of the machine the writer runs on.
\<close>

record GCodeWriter =
  config :: PrintConfig
  NDEBUG :: bool
  arith :: double_arith
  multiple_extruders :: bool
  m_single_extruder_multi_material :: bool
  m_is_bbl_printer :: bool
  m_filament_extruders :: "Extruder list"
  m_curr_extruder_id :: int
  m_curr_filament_extruder :: "int \<Rightarrow> nat option"
  m_pos :: Vec3d
  m_x_offset :: real
  m_y_offset :: real
  m_lifted :: real
  m_to_lift :: real
  m_to_lift_type :: LiftType
  m_current_position_clear :: bool
  m_current_speed :: real
  m_acceleration :: "32 word"
  m_max_acceleration :: "32 word"
  m_last_acceleration :: "32 word"
  m_travel_accelerations :: "32 word list"
  m_first_layer_travel_accelerations :: "32 word list"
  m_is_first_layer :: bool
  m_last_bed_temperature :: int
  m_last_bed_temperature_reached :: bool

text \<open>
  Modelled from the spec: constants declared outside GCodeWriter.cpp. EPSILON is the
  "small epsilon" of the lift accounting (libslic3r.h), \<open>XYZF_EXPORT_DIGITS\<close> and
  \<open>E_EXPORT_DIGITS\<close> are the fixed digit counts of the axes (GCodeWriter.hpp).
\<close>

definition EPSILON :: real where
  "EPSILON = 1 / 10000"

definition XYZF_EXPORT_DIGITS :: nat where
  "XYZF_EXPORT_DIGITS = 3"

definition E_EXPORT_DIGITS :: nat where
  "E_EXPORT_DIGITS = 5"

definition full_gcode_comment :: bool where
  "full_gcode_comment = False"

definition slope_threshold :: "double_arith \<Rightarrow> real" where
  "slope_threshold M = ddiv M (dmul M 3 (PI M)) 180"

text \<open>An assertion of the source: it stops the program unless it is compiled out.\<close>

definition assert_that :: "GCodeWriter \<Rightarrow> bool \<Rightarrow> unit option" where
  "assert_that w b = (if NDEBUG w \<or> b then Some () else None)"

text \<open>
  Modelled from the spec: the accessor \<^verbatim>\<open>filament()\<close> of GCodeWriter.hpp, the tool
  currently selected, unset before the first selection.
\<close>

definition filament :: "GCodeWriter \<Rightarrow> nat option" where
  "filament w =
    (if m_curr_extruder_id w = - 1 then None
     else m_curr_filament_extruder w (m_curr_extruder_id w))"

text \<open>Dereferencing a pointer to a tool; a null or dangling pointer has no value.\<close>

definition deref :: "GCodeWriter \<Rightarrow> nat option \<Rightarrow> Extruder option" where
  "deref w p =
    (case p of None \<Rightarrow> None
     | Some i \<Rightarrow> if i < length (m_filament_extruders w)
                 then Some (m_filament_extruders w ! i) else None)"

definition store :: "nat \<Rightarrow> Extruder \<Rightarrow> GCodeWriter \<Rightarrow> GCodeWriter" where
  "store i e w = w\<lparr>m_filament_extruders := (m_filament_extruders w)[i := e]\<rparr>"

subsection \<open>The line formatters\<close>

text \<open>
  Modelled from the spec: the classes GCodeG1Formatter and GCodeG2G3Formatter of
  GCodeWriter.hpp. A formatter is its buffer: it starts with the mnemonic, collects axis
  fragments, a feedrate fragment, a literal token and a comment (only when comments are
  allowed), and ends the line with one newline. Only emit_axis is in GCodeWriter.cpp.
\<close>

definition GCodeG1Formatter :: string where
  "GCodeG1Formatter = ''G1''"

definition GCodeG2G3Formatter :: "bool \<Rightarrow> string" where
  "GCodeG2G3Formatter is_ccw = (if is_ccw then ''G3'' else ''G2'')"

definition emit_xy :: "double_arith \<Rightarrow> Vec2d \<Rightarrow> string \<Rightarrow> string option" where
  "emit_xy M p buf = do {
     b1 \<leftarrow> emit_axis M CHR ''X'' (x2 p) XYZF_EXPORT_DIGITS buf;
     emit_axis M CHR ''Y'' (y2 p) XYZF_EXPORT_DIGITS b1 }"

definition emit_xyz :: "double_arith \<Rightarrow> Vec3d \<Rightarrow> string \<Rightarrow> string option" where
  "emit_xyz M p buf = do {
     b1 \<leftarrow> emit_axis M CHR ''X'' (x3 p) XYZF_EXPORT_DIGITS buf;
     b2 \<leftarrow> emit_axis M CHR ''Y'' (y3 p) XYZF_EXPORT_DIGITS b1;
     emit_axis M CHR ''Z'' (z3 p) XYZF_EXPORT_DIGITS b2 }"

definition emit_z :: "double_arith \<Rightarrow> real \<Rightarrow> string \<Rightarrow> string option" where
  "emit_z M z buf = emit_axis M CHR ''Z'' z XYZF_EXPORT_DIGITS buf"

definition emit_ij :: "double_arith \<Rightarrow> Vec2d \<Rightarrow> string \<Rightarrow> string option" where
  "emit_ij M p buf = do {
     b1 \<leftarrow> emit_axis M CHR ''I'' (x2 p) XYZF_EXPORT_DIGITS buf;
     emit_axis M CHR ''J'' (y2 p) XYZF_EXPORT_DIGITS b1 }"

definition emit_e :: "double_arith \<Rightarrow> real \<Rightarrow> string \<Rightarrow> string option" where
  "emit_e M v buf = emit_axis M CHR ''E'' v E_EXPORT_DIGITS buf"

definition emit_f :: "double_arith \<Rightarrow> real \<Rightarrow> string \<Rightarrow> string option" where
  "emit_f M speed buf = emit_axis M CHR ''F'' speed XYZF_EXPORT_DIGITS buf"

definition emit_string :: "string \<Rightarrow> string \<Rightarrow> string" where
  "emit_string s buf = buf @ s"

definition emit_comment :: "bool \<Rightarrow> string \<Rightarrow> string \<Rightarrow> string" where
  "emit_comment allow_comments comment buf =
    (if allow_comments \<and> comment \<noteq> [] then buf @ '' ; '' @ comment else buf)"

definition formatter_string :: "string \<Rightarrow> string" where
  "formatter_string buf = buf @ [CHR 0x0A]"

subsection \<open>Temperatures\<close>

definition newline :: string where
  "newline = [CHR 0x0A]"

definition set_temperature :: "32 word \<Rightarrow> bool \<Rightarrow> int \<Rightarrow> GCodeWriter \<Rightarrow> string" where
  "set_temperature temperature wait tool w =
    (let fl = gcode_flavor (config w)
     in if wait \<and> (fl = gcfMakerWare \<or> fl = gcfSailfish) then []
        else
          let m109 = (wait \<and> fl \<noteq> gcfTeacup \<and> fl \<noteq> gcfRepRapFirmware);
              code = (if m109 then ''M109''
                      else if fl = gcfRepRapFirmware then ''G10'' else ''M104'');
              comment = (if m109 then ''set nozzle temperature and wait for it to be reached''
                         else ''set nozzle temperature'');
              g1 = code @ '' '' @ (if fl = gcfMach3 \<or> fl = gcfMachinekit then ''P'' else ''S'')
                   @ show_uint temperature;
              multiple_tools = (multiple_extruders w \<and> \<not> m_single_extruder_multi_material w);
              g2 = (if tool \<noteq> - 1 \<and> (multiple_tools \<or> fl = gcfMakerWare \<or> fl = gcfSailfish)
                    then (if fl = gcfRepRapFirmware then g1 @ '' P'' @ to_chars tool
                          else g1 @ '' T'' @ to_chars tool)
                    else g1);
              g3 = g2 @ '' ; '' @ comment @ newline
          in if (fl = gcfTeacup \<or> fl = gcfRepRapFirmware) \<and> wait
             then g3 @ ''M116 ; wait for temperature to be reached'' @ newline
             else g3)"

definition set_bed_temperature :: "int \<Rightarrow> bool \<Rightarrow> GCodeWriter \<Rightarrow> string \<times> GCodeWriter" where
  "set_bed_temperature temperature wait w =
    (if temperature = m_last_bed_temperature w \<and> (\<not> wait \<or> m_last_bed_temperature_reached w)
     then ([], w)
     else
       let w1 = w\<lparr>m_last_bed_temperature := temperature,
                  m_last_bed_temperature_reached := wait\<rparr>;
           code = (if wait then ''M190'' else ''M140'');
           comment = (if wait then ''set bed temperature and wait for it to be reached''
                      else ''set bed temperature'')
       in (code @ '' S'' @ to_chars temperature @ '' ; '' @ comment @ newline, w1))"

definition set_chamber_temperature :: "int \<Rightarrow> bool \<Rightarrow> GCodeWriter \<Rightarrow> string \<times> GCodeWriter" where
  "set_chamber_temperature temperature wait w =
    (if wait
     then (''M106 P2 S255 '' @ newline
           @ ''M191 S'' @ to_chars temperature @ '' ;''
           @ ''set chamber_temperature and wait for it to be reached'' @ newline
           @ ''M106 P2 S0 '' @ newline, w)
     else (''M141'' @ '' S'' @ to_chars temperature @ '';'' @ ''set chamber_temperature''
           @ newline, w))"

subsection \<open>Acceleration\<close>

definition set_acceleration :: "32 word \<Rightarrow> GCodeWriter \<Rightarrow> GCodeWriter" where
  "set_acceleration acceleration w = w\<lparr>m_acceleration := acceleration\<rparr>"

definition set_travel_accelerations :: "32 word list \<Rightarrow> GCodeWriter \<Rightarrow> GCodeWriter" where
  "set_travel_accelerations accelerations w = w\<lparr>m_travel_accelerations := accelerations\<rparr>"

definition reset_last_acceleration :: "GCodeWriter \<Rightarrow> GCodeWriter" where
  "reset_last_acceleration w = w\<lparr>m_last_acceleration := 0\<rparr>"

definition set_first_layer_travel_acceleration ::
  "32 word list \<Rightarrow> GCodeWriter \<Rightarrow> GCodeWriter" where
  "set_first_layer_travel_acceleration travel_accelerations w =
     w\<lparr>m_first_layer_travel_accelerations := travel_accelerations\<rparr>"

definition set_first_layer :: "bool \<Rightarrow> GCodeWriter \<Rightarrow> GCodeWriter" where
  "set_first_layer is_first_layer w = w\<lparr>m_is_first_layer := is_first_layer\<rparr>"

text \<open>
  The command text set_acceleration_impl assembles for the (already clamped) value it
  emits.
\<close>

definition acceleration_gcode :: "GCodeWriter \<Rightarrow> 32 word \<Rightarrow> string" where
  "acceleration_gcode w acceleration =
    (let fl = gcode_flavor (config w);
         tail = (if full_gcode_comment then '' ; adjust acceleration'' else []) @ newline
     in if fl = gcfRepetier
        then ''M201 X'' @ show_uint acceleration @ '' Y'' @ show_uint acceleration
             @ (if full_gcode_comment then '' ; adjust acceleration'' else []) @ newline
             @ ''M202 X'' @ show_uint acceleration @ '' Y'' @ show_uint acceleration @ tail
        else if fl = gcfRepRapFirmware then ''M204 P'' @ show_uint acceleration @ tail
        else if fl = gcfMarlinFirmware then ''M204 P'' @ show_uint acceleration @ tail
        else if fl = gcfKlipper \<and> accel_to_decel_enable (config w)
        then ''SET_VELOCITY_LIMIT ACCEL_TO_DECEL=''
             @ stream_double (arith w)
                 (ddiv (arith w)
                    (dmul (arith w) (real (unat acceleration)) (accel_to_decel_factor (config w)))
                    100)
             @ (if full_gcode_comment then '' ; adjust ACCEL_TO_DECEL'' else [])
             @ newline @ ''M204 S'' @ show_uint acceleration @ tail
        else ''M204 S'' @ show_uint acceleration @ tail)"

definition set_acceleration_impl :: "32 word \<Rightarrow> GCodeWriter \<Rightarrow> string \<times> GCodeWriter" where
  "set_acceleration_impl acceleration0 w =
    (let acceleration =
           (if m_max_acceleration w > 0 \<and> acceleration0 > m_max_acceleration w
            then m_max_acceleration w else acceleration0)
     in if acceleration = 0 \<or> acceleration = m_last_acceleration w then ([], w)
        else (acceleration_gcode w acceleration, w\<lparr>m_last_acceleration := acceleration\<rparr>))"

definition set_extrude_acceleration :: "GCodeWriter \<Rightarrow> string \<times> GCodeWriter" where
  "set_extrude_acceleration w = set_acceleration_impl (m_acceleration w) w"

definition set_travel_acceleration :: "GCodeWriter \<Rightarrow> (string \<times> GCodeWriter) option" where
  "set_travel_acceleration w =
    (let travel_accelerations =
           (if m_is_first_layer w then m_first_layer_travel_accelerations w
            else m_travel_accelerations w)
     in if travel_accelerations = [] then Some ([], w)
        else case filament w of
               None \<Rightarrow> Some ([], w)
             | Some i \<Rightarrow> do {
                 cur_filament \<leftarrow> deref w (Some i);
                 if 0 \<le> m_extruder_id cur_filament
                    \<and> nat (m_extruder_id cur_filament) < length travel_accelerations
                 then Some (set_acceleration_impl
                              (travel_accelerations ! nat (m_extruder_id cur_filament)) w)
                 else None })"

subsection \<open>Extrusion reset and tool selection\<close>

definition reset_e :: "bool \<Rightarrow> GCodeWriter \<Rightarrow> (string \<times> GCodeWriter) option" where
  "reset_e force w =
    (let fl = gcode_flavor (config w)
     in if fl = gcfMach3 \<or> fl = gcfMakerWare \<or> fl = gcfSailfish then Some ([], w)
        else
          let g92 = (if \<not> use_relative_e_distances (config w)
                     then ''G92 E0''
                          @ (if full_gcode_comment then '' ; reset extrusion distance'' else [])
                          @ newline
                     else [])
          in if m_curr_extruder_id w \<noteq> - 1
                \<and> m_curr_filament_extruder w (m_curr_extruder_id w) \<noteq> None
             then do {
               e \<leftarrow> deref w (m_curr_filament_extruder w (m_curr_extruder_id w));
               if m_E e = 0 \<and> \<not> force then Some ([], w)
               else Some (g92, store (the (m_curr_filament_extruder w (m_curr_extruder_id w)))
                                     (Extruder_reset_E e) w) }
             else Some (g92, w))"

definition toolchange_prefix :: "GCodeWriter \<Rightarrow> string" where
  "toolchange_prefix w =
    (if gcode_flavor (config w) = gcfMakerWare then ''M135 T''
     else if gcode_flavor (config w) = gcfSailfish then ''M108 T'' else ''T'')"

text \<open>
  Modelled from the spec: \<^verbatim>\<open>Slic3r::lower_bound_by_predicate\<close> (declared outside
  GCodeWriter.cpp), the position of the first element the predicate does not hold for, the
  length of the list when there is none. The tools are kept sorted by id, so the binary
  search of the source finds this position.
\<close>

fun lower_bound_by_predicate :: "('a \<Rightarrow> bool) \<Rightarrow> 'a list \<Rightarrow> nat" where
  "lower_bound_by_predicate lower [] = 0"
| "lower_bound_by_predicate lower (e # es) =
     (if lower e then Suc (lower_bound_by_predicate lower es) else 0)"

definition toolchange :: "32 word \<Rightarrow> GCodeWriter \<Rightarrow> (string \<times> GCodeWriter) option" where
  "toolchange filament_id w = do {
     let it = lower_bound_by_predicate (\<lambda>e. m_id e < filament_id) (m_filament_extruders w);
     _ \<leftarrow> assert_that w (it \<noteq> length (m_filament_extruders w)
                          \<and> m_id (m_filament_extruders w ! it) = filament_id);
     e \<leftarrow> deref w (Some it);
     if m_extruder_id e < 0 then None
     else do {
       let w1 = w\<lparr>m_curr_extruder_id := m_extruder_id e,
                  m_curr_filament_extruder :=
                    (m_curr_filament_extruder w)(m_extruder_id e := Some it)\<rparr>;
       if multiple_extruders w1
       then do {
         let g = (if m_is_bbl_printer w1 then ''M1020 S'' @ show_uint filament_id
                  else toolchange_prefix w1 @ show_uint filament_id)
                 @ (if full_gcode_comment then '' ; change extruder'' else []) @ newline;
         (r, w2) \<leftarrow> reset_e True w1;
         Some (g @ r, w2) }
       else Some ([], w1) } }"

definition need_toolchange :: "32 word \<Rightarrow> GCodeWriter \<Rightarrow> bool option" where
  "need_toolchange filament_id w =
    (case filament w of
       None \<Rightarrow> Some True
     | Some i \<Rightarrow> do { e \<leftarrow> deref w (Some i); Some (m_id e \<noteq> filament_id) })"

definition set_extruder :: "32 word \<Rightarrow> GCodeWriter \<Rightarrow> (string \<times> GCodeWriter) option" where
  "set_extruder filament_id w = do {
     let it = lower_bound_by_predicate (\<lambda>e. m_id e < filament_id) (m_filament_extruders w);
     e \<leftarrow> deref w (Some it);
     _ \<leftarrow> assert_that w (it \<noteq> length (m_filament_extruders w)
                          \<and> m_id (m_filament_extruders w ! it) = filament_id);
     need \<leftarrow> need_toolchange filament_id w;
     if need then toolchange filament_id w else Some ([], w) }"

definition init_extruder :: "32 word \<Rightarrow> GCodeWriter \<Rightarrow> GCodeWriter option" where
  "init_extruder filament_id w =
    (if m_curr_extruder_id w = - 1 \<and> filament_id \<noteq> - 1
     then do {
       let it = lower_bound_by_predicate (\<lambda>e. m_id e < filament_id) (m_filament_extruders w);
       _ \<leftarrow> assert_that w (it \<noteq> length (m_filament_extruders w)
                            \<and> m_id (m_filament_extruders w ! it) = filament_id);
       e \<leftarrow> deref w (Some it);
       if m_extruder_id e < 0 then None
       else Some (w\<lparr>m_curr_extruder_id := m_extruder_id e,
                    m_curr_filament_extruder :=
                      (m_curr_filament_extruder w)(m_extruder_id e := Some it)\<rparr>) }
     else Some w)"

text \<open>
  set_extruders sorts the ids and builds one tool per id. The constructor of Extruder is
  outside GCodeWriter.cpp: \<open>new_extruder\<close> stands for it, and the tool it builds has the
  given id (set here).
\<close>

definition set_extruders ::
  "(32 word \<Rightarrow> Extruder) \<Rightarrow> 32 word list \<Rightarrow> GCodeWriter \<Rightarrow> GCodeWriter option" where
  "set_extruders new_extruder extruder_ids w =
    (let ids = sort extruder_ids;
         w1 = w\<lparr>m_filament_extruders := map (\<lambda>i. (new_extruder i)\<lparr>m_id := i\<rparr>) ids\<rparr>
     in if ids = [] then None
        else Some (w1\<lparr>multiple_extruders := (Max (set ids) > 0)\<rparr>))"

subsection \<open>Moves and the lift\<close>

text \<open>The feedrate of a travel move: the travel speed of the current tool, times 60.\<close>

definition travel_feedrate :: "GCodeWriter \<Rightarrow> real option" where
  "travel_feedrate w = do {
     f \<leftarrow> deref w (filament w);
     Some (dmul (arith w) (travel_speed (config w) (extruder_index (config w) (m_id f))) 60) }"

definition set_speed :: "real \<Rightarrow> string \<Rightarrow> string \<Rightarrow> GCodeWriter \<Rightarrow> (string \<times> GCodeWriter) option"
  where
  "set_speed F comment cooling_marker w = do {
     _ \<leftarrow> assert_that w (F > 0);
     _ \<leftarrow> assert_that w (F < 100000);
     b1 \<leftarrow> emit_f (arith w) F GCodeG1Formatter;
     Some (formatter_string (emit_string cooling_marker
             (emit_comment full_gcode_comment comment b1)),
           w\<lparr>m_current_speed := F\<rparr>) }"

definition travel_to_xy :: "Vec2d \<Rightarrow> string \<Rightarrow> GCodeWriter \<Rightarrow> (string \<times> GCodeWriter) option"
  where
  "travel_to_xy point comment w = do {
     let w1 = w\<lparr>m_pos := Vec3d (x2 point) (y2 point) (z3 (m_pos w)),
                m_current_position_clear := True\<rparr>;
     b1 \<leftarrow> emit_xy (arith w1)
             (Vec2d (dsub (arith w1) (x2 point) (m_x_offset w1))
                    (dsub (arith w1) (y2 point) (m_y_offset w1)))
             GCodeG1Formatter;
     F \<leftarrow> travel_feedrate w1;
     b2 \<leftarrow> emit_f (arith w1) F b1;
     (a, w2) \<leftarrow> set_travel_acceleration w1;
     Some (a @ formatter_string (emit_comment full_gcode_comment comment b2), w2) }"

text \<open>The speed of a Z move, computed alike in _travel_to_z and _spiral_travel_to_z.\<close>

definition z_speed :: "bool \<Rightarrow> GCodeWriter \<Rightarrow> real option" where
  "z_speed tool_change w = do {
     f \<leftarrow> deref w (filament w);
     let speed0 = travel_speed_z (config w) (extruder_index (config w) (m_id f));
     let speed1 = (if speed0 = 0
                   then travel_speed (config w) (extruder_index (config w) (m_id f))
                   else speed0);
     Some (if tool_change \<and> prime_tower_lift_speed (config w) > 0
           then prime_tower_lift_speed (config w) else speed1) }"

text \<open>
  In a sum of two calls that both change the writer, as in
  \<^verbatim>\<open>set_travel_acceleration() + this->_travel_to_z(z, comment)\<close>, the left call is taken
  first. The acceleration command is written by whichever call comes first and the other
  one writes nothing, so both orders give the same text and the same writer.
\<close>

definition travel_to_z_impl ::
  "real \<Rightarrow> string \<Rightarrow> bool \<Rightarrow> GCodeWriter \<Rightarrow> (string \<times> GCodeWriter) option" where
  "travel_to_z_impl z comment tool_change w = do {
     let w1 = w\<lparr>m_pos := Vec3d (x3 (m_pos w)) (y3 (m_pos w)) z\<rparr>;
     speed \<leftarrow> z_speed tool_change w1;
     b1 \<leftarrow> emit_z (arith w1) z GCodeG1Formatter;
     b2 \<leftarrow> emit_f (arith w1) (dmul (arith w1) speed 60) b1;
     (a, w2) \<leftarrow> set_travel_acceleration w1;
     Some (a @ formatter_string (emit_comment full_gcode_comment comment b2), w2) }"

definition spiral_travel_to_z_impl ::
  "real \<Rightarrow> Vec2d \<Rightarrow> string \<Rightarrow> bool \<Rightarrow> GCodeWriter \<Rightarrow> (string \<times> GCodeWriter) option" where
  "spiral_travel_to_z_impl z ij_offset comment tool_change w = do {
     let w1 = w\<lparr>m_pos := Vec3d (x3 (m_pos w)) (y3 (m_pos w)) z\<rparr>;
     speed \<leftarrow> z_speed tool_change w1;
     b1 \<leftarrow> emit_z (arith w1) z (GCodeG2G3Formatter True);
     b2 \<leftarrow> emit_ij (arith w1) ij_offset b1;
     b3 \<leftarrow> emit_f (arith w1) (dmul (arith w1) speed 60) (emit_string '' P1 '' b2);
     (a, w2) \<leftarrow> set_travel_acceleration w1;
     Some (a @ ''G17'' @ newline
             @ formatter_string (emit_comment full_gcode_comment comment b3), w2) }"

text \<open>
  The lift to aim at, computed alike at the head of lazy_lift and of eager_lift: the
  configured Z-hop (or the prime tower's lift height during a toolchange) inside the band
  [above, below], zero outside.
\<close>

definition target_lift_of :: "bool \<Rightarrow> GCodeWriter \<Rightarrow> real option" where
  "target_lift_of tool_change w = do {
     f \<leftarrow> deref w (filament w);
     let above = retract_lift_above (config w) (m_extruder_id f);
     let below = retract_lift_below (config w) (m_extruder_id f);
     Some (if z3 (m_pos w) \<ge> above \<and> z3 (m_pos w) \<le> below
           then (if tool_change \<and> prime_tower_lift_height (config w) > 0
                 then prime_tower_lift_height (config w)
                 else z_hop (config w) (sint (m_id f)))
           else 0) }"

definition lazy_lift ::
  "LiftType \<Rightarrow> bool \<Rightarrow> bool \<Rightarrow> GCodeWriter \<Rightarrow> (string \<times> GCodeWriter) option" where
  "lazy_lift lift_type spiral_vase tool_change w = do {
     target_lift \<leftarrow> target_lift_of tool_change w;
     if m_lifted w = 0 \<and> m_to_lift w = 0 \<and> target_lift > 0
     then (if spiral_vase
           then travel_to_z_impl (dadd (arith w) (z3 (m_pos w)) target_lift) ''lift Z''
                  tool_change (w\<lparr>m_lifted := target_lift\<rparr>)
           else Some ([], w\<lparr>m_to_lift := target_lift, m_to_lift_type := lift_type\<rparr>))
     else Some ([], w) }"

text \<open>The radius of a spiral lift: \<^verbatim>\<open>h / (2 * PI * atan(GCodeWriter::slope_threshold))\<close>.\<close>

definition spiral_radius :: "double_arith \<Rightarrow> real \<Rightarrow> real" where
  "spiral_radius M h = ddiv M h (dmul M (dmul M 2 (PI M)) (d_atan M (slope_threshold M)))"

definition eager_lift :: "LiftType \<Rightarrow> bool \<Rightarrow> GCodeWriter \<Rightarrow> (string \<times> GCodeWriter) option"
  where
  "eager_lift type tool_change w = do {
     target_lift \<leftarrow> target_lift_of tool_change w;
     let to_lift = dsub (arith w) target_lift (m_lifted w);
     if to_lift < EPSILON then Some ([], w)
     else do {
       (lift_move, w1) \<leftarrow>
         (if type = SpiralLift \<and> m_current_position_clear w
          then (if to_lift > 0
                then spiral_travel_to_z_impl (dadd (arith w) (z3 (m_pos w)) to_lift)
                       (Vec2d (spiral_radius (arith w) to_lift) 0)
                       ''spiral lift Z'' tool_change w
                else Some ([], w))
          else if to_lift > 0
          then travel_to_z_impl (dadd (arith w) (z3 (m_pos w)) to_lift) ''normal lift Z''
                 tool_change w
          else Some ([], w));
       Some (lift_move, w1\<lparr>m_lifted := target_lift, m_to_lift := 0\<rparr>) } }"

definition will_move_z :: "real \<Rightarrow> GCodeWriter \<Rightarrow> bool" where
  "will_move_z z w =
    (if m_lifted w > 0
     then (if z \<ge> dsub (arith w) (z3 (m_pos w)) (m_lifted w) \<and> z \<le> z3 (m_pos w)
           then False else True)
     else if \<bar>dsub (arith w) (z3 (m_pos w)) z\<bar> < EPSILON then False
     else True)"

text \<open>
  The lift accounting of the branch that emits no Z move, the same in travel_to_z and in
  travel_to_xyz: the lift shrinks by the distance of z from the nominal Z, and a rest
  within EPSILON of zero is zero.
\<close>

definition absorb_lift :: "real \<Rightarrow> GCodeWriter \<Rightarrow> real" where
  "absorb_lift z w =
    (let nominal_z = dsub (arith w) (z3 (m_pos w)) (m_lifted w);
         lifted = dsub (arith w) (m_lifted w) (dsub (arith w) z nominal_z)
     in if \<bar>lifted\<bar> < EPSILON then 0 else lifted)"

definition travel_to_z :: "real \<Rightarrow> string \<Rightarrow> GCodeWriter \<Rightarrow> (string \<times> GCodeWriter) option"
  where
  "travel_to_z z comment w =
    (if \<not> will_move_z z w then Some ([], w\<lparr>m_lifted := absorb_lift z w\<rparr>)
     else do {
       (a, w1) \<leftarrow> set_travel_acceleration (w\<lparr>m_lifted := 0\<rparr>);
       (g, w2) \<leftarrow> travel_to_z_impl z comment False w1;
       Some (a @ g, w2) })"

text \<open>A travel line to a point in plate coordinates, X and Y only or X, Y and Z.\<close>

definition travel_line_xy :: "Vec2d \<Rightarrow> string \<Rightarrow> GCodeWriter \<Rightarrow> string option" where
  "travel_line_xy p comment w = do {
     b1 \<leftarrow> emit_xy (arith w) p GCodeG1Formatter;
     F \<leftarrow> travel_feedrate w;
     b2 \<leftarrow> emit_f (arith w) F b1;
     Some (formatter_string (emit_comment full_gcode_comment comment b2)) }"

definition travel_line_xyz :: "Vec3d \<Rightarrow> string \<Rightarrow> GCodeWriter \<Rightarrow> string option" where
  "travel_line_xyz p comment w = do {
     b1 \<leftarrow> emit_xyz (arith w) p GCodeG1Formatter;
     F \<leftarrow> travel_feedrate w;
     b2 \<leftarrow> emit_f (arith w) F b1;
     Some (formatter_string (emit_comment full_gcode_comment comment b2)) }"

text \<open>
  The move that climbs to the lifted height at the start of a travel with a pending lift
  (the variable \<^verbatim>\<open>slop_move\<close> of travel_to_xyz), from \<open>source\<close> to \<open>target\<close>, both in plate
  coordinates.
\<close>

definition slope_move ::
  "Vec3d \<Rightarrow> Vec3d \<Rightarrow> GCodeWriter \<Rightarrow> (string \<times> GCodeWriter) option" where
  "slope_move source target w =
    (let M = arith w;
         dz = dsub M (z3 target) (z3 source);
         delta_no_z = (dsub M (x3 target) (x3 source), dsub M (y3 target) (y3 source))
     in if dz > 0 \<and> vec_norm M delta_no_z \<noteq> 0
        then (if m_to_lift_type w = SpiralLift \<and> m_current_position_clear w
              then let radius = spiral_radius M dz;
                       n = vec_normalized M delta_no_z
                   in spiral_travel_to_z_impl (z3 target)
                        (Vec2d (- (dmul M radius (snd n))) (dmul M radius (fst n)))
                        ''spiral lift Z'' False w
              else if m_to_lift_type w = SlopeLift \<and> m_current_position_clear w
                      \<and> d_atan2 M dz (vec_norm M delta_no_z) < slope_threshold M
              then let n = vec_normalized M delta_no_z;
                       t = d_tan M (slope_threshold M)
                   in do {
                     g \<leftarrow> travel_line_xyz
                            (Vec3d (dadd M (ddiv M (dmul M (fst n) dz) t) (x3 source))
                                   (dadd M (ddiv M (dmul M (snd n) dz) t) (y3 source))
                                   (dadd M dz (z3 source)))
                            ''slope lift Z'' w;
                     Some (g, w) }
              else if m_to_lift_type w = NormalLift
              then travel_to_z_impl (z3 target) ''normal lift Z'' False w
              else Some ([], w))
        else Some ([], w))"

text \<open>
  The final move of travel_to_xyz: one line with X, Y and Z when the position is known,
  else X and Y first and Z after.
\<close>

definition xy_then_z ::
  "Vec3d \<Rightarrow> string \<Rightarrow> GCodeWriter \<Rightarrow> (string \<times> GCodeWriter) option" where
  "xy_then_z target comment w =
    (if m_current_position_clear w
     then do { g \<leftarrow> travel_line_xyz target comment w; Some (g, w) }
     else do {
       g \<leftarrow> travel_line_xy (Vec2d (x3 target) (y3 target)) comment w;
       (gz, w1) \<leftarrow> travel_to_z_impl (z3 target) comment False w;
       Some (g @ gz, w1) })"

definition travel_to_xyz :: "Vec3d \<Rightarrow> string \<Rightarrow> GCodeWriter \<Rightarrow> (string \<times> GCodeWriter) option"
  where
  "travel_to_xyz point comment w =
    (if \<bar>m_to_lift w\<bar> > EPSILON
     then do {
       _ \<leftarrow> assert_that w (\<bar>m_lifted w\<bar> < EPSILON);
       let lifted_z = dadd (arith w) (m_to_lift w) (z3 (m_pos w));
       let lift_now = ((\<not> m_current_position_clear w \<or> m_pos w \<noteq> point)
                       \<and> lifted_z > z3 point);
       let dest_point = (if lift_now then Vec3d (x3 point) (y3 point) lifted_z else point);
       let w1 = w\<lparr>m_lifted := (if lift_now then dsub (arith w) lifted_z (z3 point)
                                else m_lifted w),
                  m_to_lift := 0\<rparr>;
       let source = Vec3d (dsub (arith w) (x3 (m_pos w1)) (m_x_offset w1))
                          (dsub (arith w) (y3 (m_pos w1)) (m_y_offset w1))
                          (z3 (m_pos w1));
       let target = Vec3d (dsub (arith w) (x3 dest_point) (m_x_offset w1))
                          (dsub (arith w) (y3 dest_point) (m_y_offset w1))
                          (z3 dest_point);
       (slop_move, w2) \<leftarrow> slope_move source target w1;
       (xy_z_move, w3) \<leftarrow> xy_then_z target comment w2;
       (a, w4) \<leftarrow> set_travel_acceleration
                    (w3\<lparr>m_pos := dest_point, m_current_position_clear := True\<rparr>);
       Some (a @ slop_move @ xy_z_move, w4) }
     else if \<not> will_move_z (z3 point) w
     then travel_to_xy (to_2d point) []
            (w\<lparr>m_lifted := absorb_lift (z3 point) w, m_current_position_clear := True\<rparr>)
     else do {
       let w1 = w\<lparr>m_lifted := 0\<rparr>;
       (out_string, w2) \<leftarrow>
         xy_then_z (Vec3d (dsub (arith w) (x3 point) (m_x_offset w1))
                          (dsub (arith w) (y3 point) (m_y_offset w1)) (z3 point))
           comment w1;
       (a, w3) \<leftarrow> set_travel_acceleration
                    (w2\<lparr>m_pos := point, m_current_position_clear := True\<rparr>);
       Some (a @ out_string, w3) })"

definition unlift :: "GCodeWriter \<Rightarrow> (string \<times> GCodeWriter) option" where
  "unlift w =
    (if m_lifted w > 0
     then do {
       (g, w1) \<leftarrow> travel_to_z_impl (dsub (arith w) (z3 (m_pos w)) (m_lifted w))
                    ''restore layer Z'' False w;
       Some (g, w1\<lparr>m_lifted := 0, m_to_lift := 0\<rparr>) }
     else Some ([], w\<lparr>m_to_lift := 0\<rparr>))"

subsection \<open>Extrusion and retraction\<close>

text \<open>\<^verbatim>\<open>filament()->extrude(dE)\<close> unless the move is forced not to extrude.\<close>

definition extrude_current :: "real \<Rightarrow> bool \<Rightarrow> GCodeWriter \<Rightarrow> GCodeWriter option" where
  "extrude_current dE force_no_extrusion w =
    (if force_no_extrusion then Some w
     else do {
       i \<leftarrow> filament w;
       f \<leftarrow> deref w (Some i);
       Some (store i (snd (Extruder_extrude dE f)) w) })"

text \<open>The E fragment of an extruding move: \<^verbatim>\<open>w.emit_e(filament()->E())\<close>.\<close>

definition emit_current_e :: "bool \<Rightarrow> GCodeWriter \<Rightarrow> string \<Rightarrow> string option" where
  "emit_current_e force_no_extrusion w buf =
    (if force_no_extrusion then Some buf
     else do { f \<leftarrow> deref w (filament w); emit_e (arith w) (m_E f) buf })"

definition extrude_to_xy ::
  "Vec2d \<Rightarrow> real \<Rightarrow> string \<Rightarrow> bool \<Rightarrow> GCodeWriter \<Rightarrow> (string \<times> GCodeWriter) option" where
  "extrude_to_xy point dE comment force_no_extrusion w = do {
     w1 \<leftarrow> extrude_current dE force_no_extrusion
             (w\<lparr>m_pos := Vec3d (x2 point) (y2 point) (z3 (m_pos w))\<rparr>);
     b1 \<leftarrow> emit_xy (arith w1)
             (Vec2d (dsub (arith w1) (x2 point) (m_x_offset w1))
                    (dsub (arith w1) (y2 point) (m_y_offset w1)))
             GCodeG1Formatter;
     b2 \<leftarrow> emit_current_e force_no_extrusion w1 b1;
     let (a, w2) = set_extrude_acceleration w1;
     Some (a @ formatter_string (emit_comment full_gcode_comment comment b2), w2) }"

definition extrude_arc_to_xy ::
  "Vec2d \<Rightarrow> Vec2d \<Rightarrow> real \<Rightarrow> bool \<Rightarrow> string \<Rightarrow> bool \<Rightarrow> GCodeWriter
     \<Rightarrow> (string \<times> GCodeWriter) option" where
  "extrude_arc_to_xy point center_offset dE is_ccw comment force_no_extrusion w = do {
     w1 \<leftarrow> extrude_current dE force_no_extrusion
             (w\<lparr>m_pos := Vec3d (x2 point) (y2 point) (z3 (m_pos w))\<rparr>);
     b1 \<leftarrow> emit_xy (arith w1)
             (Vec2d (dsub (arith w1) (x2 point) (m_x_offset w1))
                    (dsub (arith w1) (y2 point) (m_y_offset w1)))
             (GCodeG2G3Formatter is_ccw);
     b2 \<leftarrow> emit_ij (arith w1) center_offset b1;
     b3 \<leftarrow> emit_current_e force_no_extrusion w1 b2;
     let (a, w2) = set_extrude_acceleration w1;
     Some (a @ formatter_string (emit_comment full_gcode_comment comment b3), w2) }"

definition extrude_to_xyz ::
  "Vec3d \<Rightarrow> real \<Rightarrow> string \<Rightarrow> bool \<Rightarrow> GCodeWriter \<Rightarrow> (string \<times> GCodeWriter) option" where
  "extrude_to_xyz point dE comment force_no_extrusion w = do {
     w1 \<leftarrow> extrude_current dE force_no_extrusion (w\<lparr>m_pos := point, m_lifted := 0\<rparr>);
     b1 \<leftarrow> emit_xyz (arith w1)
             (Vec3d (dsub (arith w1) (x3 point) (m_x_offset w1))
                    (dsub (arith w1) (y3 point) (m_y_offset w1)) (z3 point))
             GCodeG1Formatter;
     b2 \<leftarrow> emit_current_e force_no_extrusion w1 b1;
     let (a, w2) = set_extrude_acceleration w1;
     Some (a @ formatter_string (emit_comment full_gcode_comment comment b2), w2) }"

definition retract_impl ::
  "real \<Rightarrow> real \<Rightarrow> string \<Rightarrow> GCodeWriter \<Rightarrow> (string \<times> GCodeWriter) option" where
  "retract_impl length0 restart_extra comment w = do {
     let len = (if use_firmware_retraction (config w) then 1 else length0);
     i \<leftarrow> filament w;
     f \<leftarrow> deref w (Some i);
     let (dE, f1) = Extruder_retract len restart_extra f;
     let w1 = store i f1 w;
     gcode \<leftarrow>
       (if dE \<noteq> 0
        then (if use_firmware_retraction (config w1)
              then Some (if gcode_flavor (config w1) = gcfMachinekit then ''G22 ;retract''
                         else ''G10 ;retract '' @ newline)
              else do {
                b1 \<leftarrow> emit_e (arith w1) (m_E f1) GCodeG1Formatter;
                b2 \<leftarrow> emit_f (arith w1) (dmul (arith w1) (retract_speed f1) 60) b1;
                Some (formatter_string (emit_comment full_gcode_comment comment b2)) })
        else Some []);
     Some (if gcode_flavor (config w1) = gcfMakerWare
           then gcode @ ''M103 ; extruder off'' @ newline else gcode, w1) }"

definition retract :: "bool \<Rightarrow> GCodeWriter \<Rightarrow> (string \<times> GCodeWriter) option" where
  "retract before_wipe w = do {
     f \<leftarrow> deref w (filament w);
     let factor = (if before_wipe then retract_before_wipe f else 1);
     _ \<leftarrow> assert_that w (factor \<ge> 0 \<and> factor \<le> dadd (arith w) 1 EPSILON);
     retract_impl (dmul (arith w) factor (retraction_length f))
       (dmul (arith w) factor (retract_restart_extra f)) ''retract'' w }"

definition retract_for_toolchange :: "bool \<Rightarrow> GCodeWriter \<Rightarrow> (string \<times> GCodeWriter) option"
  where
  "retract_for_toolchange before_wipe w = do {
     f \<leftarrow> deref w (filament w);
     let factor = (if before_wipe then retract_before_wipe f else 1);
     _ \<leftarrow> assert_that w (factor \<ge> 0 \<and> factor \<le> dadd (arith w) 1 EPSILON);
     retract_impl (dmul (arith w) factor (retract_length_toolchange f))
       (dmul (arith w) factor (retract_restart_extra_toolchange f))
       ''retract for toolchange'' w }"

definition unretract :: "GCodeWriter \<Rightarrow> (string \<times> GCodeWriter) option" where
  "unretract w = do {
     let gcode0 = (if gcode_flavor (config w) = gcfMakerWare
                   then ''M101 ; extruder on'' @ newline else []);
     i \<leftarrow> filament w;
     f \<leftarrow> deref w (Some i);
     let (dE, f1) = Extruder_unretract f;
     let w1 = store i f1 w;
     if dE \<noteq> 0
     then (if use_firmware_retraction (config w1)
           then do {
             (r, w2) \<leftarrow> reset_e False w1;
             Some (gcode0
                   @ (if gcode_flavor (config w1) = gcfMachinekit
                      then ''G23 ;unretract '' @ newline else ''G11 ;unretract '' @ newline)
                   @ r, w2) }
           else do {
             b1 \<leftarrow> emit_e (arith w1) (m_E f1) GCodeG1Formatter;
             b2 \<leftarrow> emit_f (arith w1) (dmul (arith w1) (deretract_speed f1) 60) b1;
             Some (gcode0
                   @ formatter_string (emit_comment full_gcode_comment '' ; unretract'' b2),
                   w1) })
     else Some (gcode0, w1) }"

definition preamble :: "GCodeWriter \<Rightarrow> (string \<times> GCodeWriter) option" where
  "preamble w =
    (let fl = gcode_flavor (config w);
         g0 = (if fl \<noteq> gcfMakerWare then ''G90'' @ newline @ ''G21'' @ newline else [])
     in if fl = gcfRepRapSprinter \<or> fl = gcfRepRapFirmware \<or> fl = gcfMarlinLegacy
           \<or> fl = gcfMarlinFirmware \<or> fl = gcfTeacup \<or> fl = gcfRepetier
           \<or> fl = gcfSmoothie \<or> fl = gcfKlipper
        then do {
          (r, w1) \<leftarrow> reset_e True w;
          Some (g0
                @ (if use_relative_e_distances (config w)
                   then ''M83 ; use relative distances for extrusion'' @ newline
                   else ''M82 ; use absolute distances for extrusion'' @ newline)
                @ r, w1) }
        else Some (g0, w))"

subsection \<open>Sequences of operations\<close>

text \<open>One value per member function that changes the writer, with its arguments.\<close>

datatype operation =
    LazyLift LiftType bool bool
  | EagerLift LiftType bool
  | Unlift
  | TravelToXY Vec2d string
  | TravelToZ real string
  | TravelToXYZ Vec3d string
  | ExtrudeToXY Vec2d real string bool
  | ExtrudeArcToXY Vec2d Vec2d real bool string bool
  | ExtrudeToXYZ Vec3d real string bool
  | Retract bool
  | RetractForToolchange bool
  | Unretract
  | Toolchange "32 word"
  | SetExtruder "32 word"
  | InitExtruder "32 word"
  | ResetE bool
  | Preamble
  | SetSpeed real string string
  | SetBedTemperature int bool
  | SetChamberTemperature int bool
  | SetAcceleration "32 word"
  | SetTravelAccelerations "32 word list"
  | SetFirstLayerTravelAcceleration "32 word list"
  | SetFirstLayer bool
  | ResetLastAcceleration
  | SetExtrudeAcceleration
  | SetTravelAcceleration

fun exec :: "operation \<Rightarrow> GCodeWriter \<Rightarrow> (string \<times> GCodeWriter) option" where
  "exec (LazyLift t sv tc) w = lazy_lift t sv tc w"
| "exec (EagerLift t tc) w = eager_lift t tc w"
| "exec Unlift w = unlift w"
| "exec (TravelToXY p c) w = travel_to_xy p c w"
| "exec (TravelToZ z c) w = travel_to_z z c w"
| "exec (TravelToXYZ p c) w = travel_to_xyz p c w"
| "exec (ExtrudeToXY p dE c f) w = extrude_to_xy p dE c f w"
| "exec (ExtrudeArcToXY p ij dE ccw c f) w = extrude_arc_to_xy p ij dE ccw c f w"
| "exec (ExtrudeToXYZ p dE c f) w = extrude_to_xyz p dE c f w"
| "exec (Retract bw) w = retract bw w"
| "exec (RetractForToolchange bw) w = retract_for_toolchange bw w"
| "exec Unretract w = unretract w"
| "exec (Toolchange t) w = toolchange t w"
| "exec (SetExtruder t) w = set_extruder t w"
| "exec (InitExtruder t) w = map_option (Pair []) (init_extruder t w)"
| "exec (ResetE force) w = reset_e force w"
| "exec Preamble w = preamble w"
| "exec (SetSpeed F c m) w = set_speed F c m w"
| "exec (SetBedTemperature t wait) w = Some (set_bed_temperature t wait w)"
| "exec (SetChamberTemperature t wait) w = Some (set_chamber_temperature t wait w)"
| "exec (SetAcceleration a) w = Some ([], set_acceleration a w)"
| "exec (SetTravelAccelerations accs) w = Some ([], set_travel_accelerations accs w)"
| "exec (SetFirstLayerTravelAcceleration accs) w =
     Some ([], set_first_layer_travel_acceleration accs w)"
| "exec (SetFirstLayer b) w = Some ([], set_first_layer b w)"
| "exec ResetLastAcceleration w = Some ([], reset_last_acceleration w)"
| "exec SetExtrudeAcceleration w = Some (set_extrude_acceleration w)"
| "exec SetTravelAcceleration w = set_travel_acceleration w"

text \<open>
  A sequence of calls on one writer: the texts returned, in order, and the writer after
  the last call. The run stops where a call has no result.
\<close>

fun run :: "operation list \<Rightarrow> GCodeWriter \<Rightarrow> (string list \<times> GCodeWriter) option" where
  "run [] w = Some ([], w)"
| "run (c # cs) w =
     (case exec c w of
        None \<Rightarrow> None
      | Some (g, w1) \<Rightarrow> (case run cs w1 of None \<Rightarrow> None | Some (gs, w2) \<Rightarrow> Some (g # gs, w2)))"

subsection \<open>Concrete writers\<close>

text \<open>
  An arithmetic to evaluate the operations with: every operation is the exact one of the
  reals, \<^verbatim>\<open>std::round\<close> rounds to the nearest integer with halfway cases away from zero,
  and \<^verbatim>\<open>operator<<\<close> writes nothing.
\<close>

definition std_round :: "real \<Rightarrow> int" where
  "std_round x = (if 0 \<le> x then \<lfloor>x + 1 / 2\<rfloor> else - \<lfloor>- x + 1 / 2\<rfloor>)"

definition exact_arith :: double_arith where
  "exact_arith =
    \<lparr>dadd = (+), dsub = (-), dmul = (*), ddiv = (/), round_int64 = std_round,
     d_atan = arctan, d_tan = tan, d_atan2 = (\<lambda>y x. arctan (y / x)),
     vec_norm = (\<lambda>(x, y). sqrt (x * x + y * y)),
     vec_normalized = (\<lambda>(x, y). (x / sqrt (x * x + y * y), y / sqrt (x * x + y * y))),
     PI = pi, stream_double = (\<lambda>_. [])\<rparr>"

text \<open>
  A configuration, two tools and a writer: Marlin (legacy) dialect, absolute extrusion, a
  Z-hop of 0.4 between Z 0 and Z 1000, tools 0 and 1 on the physical extruders 0 and 1,
  the position (0, 0, 0.2), no lift, no tool selected yet.
\<close>

definition example_config :: PrintConfig where
  "example_config =
    \<lparr>gcode_flavor = gcfMarlinLegacy, use_relative_e_distances = False,
     use_firmware_retraction = False, accel_to_decel_enable = False,
     accel_to_decel_factor = 50, retract_lift_above = (\<lambda>_. 0),
     retract_lift_below = (\<lambda>_. 1000), z_hop = (\<lambda>_. 4 / 10),
     prime_tower_lift_height = 0, prime_tower_lift_speed = 0,
     travel_speed = (\<lambda>_. 120), travel_speed_z = (\<lambda>_. 0), extruder_index = (\<lambda>_. 0)\<rparr>"

definition example_extruder :: "32 word \<Rightarrow> Extruder" where
  "example_extruder i =
    \<lparr>m_id = i, m_extruder_id = uint i, m_E = 0, m_retracted = 0, m_restart_extra = 0,
     retraction_length = 8 / 10, retract_restart_extra = 0, retract_before_wipe = 7 / 10,
     retract_length_toolchange = 2, retract_restart_extra_toolchange = 0,
     retract_speed = 30, deretract_speed = 30\<rparr>"

definition example_writer :: GCodeWriter where
  "example_writer =
    \<lparr>config = example_config, NDEBUG = False, arith = exact_arith,
     multiple_extruders = True, m_single_extruder_multi_material = False,
     m_is_bbl_printer = False,
     m_filament_extruders = [example_extruder 0, example_extruder 1],
     m_curr_extruder_id = - 1, m_curr_filament_extruder = (\<lambda>_. None),
     m_pos = Vec3d 0 0 (2 / 10), m_x_offset = 0, m_y_offset = 0,
     m_lifted = 0, m_to_lift = 0, m_to_lift_type = NormalLift,
     m_current_position_clear = True, m_current_speed = 0,
     m_acceleration = 0, m_max_acceleration = 5000, m_last_acceleration = 0,
     m_travel_accelerations = [], m_first_layer_travel_accelerations = [],
     m_is_first_layer = False,
     m_last_bed_temperature = 0, m_last_bed_temperature_reached = True\<rparr>"

text \<open>The same writer with tool 0 selected.\<close>

definition example_writer_tool0 :: GCodeWriter where
  "example_writer_tool0 =
     example_writer\<lparr>m_curr_extruder_id := 0, m_curr_filament_extruder := (\<lambda>_. None)(0 := Some 0)\<rparr>"

subsection \<open>Predicates and writers of the properties\<close>

text \<open>
  The second writer is the first one with, at most, another last emitted acceleration:
  the only effect of the acceleration commands.
\<close>

definition accel_only :: "GCodeWriter \<Rightarrow> GCodeWriter \<Rightarrow> bool" where
  "accel_only w w' = (\<exists>a. w' = w\<lparr>m_last_acceleration := a\<rparr>)"

text \<open>
  Both lift scalars, the configuration and the double arithmetic are the same in the two
  writers: the frame of every operation that does not touch the lift state.
\<close>

definition same_lift :: "GCodeWriter \<Rightarrow> GCodeWriter \<Rightarrow> bool" where
  "same_lift w w' =
    (m_lifted w' = m_lifted w \<and> m_to_lift w' = m_to_lift w \<and> arith w' = arith w
     \<and> config w' = config w)"

text \<open>
  What the lift invariant needs of the subtraction of doubles, and what IEEE 754
  subtraction in round-to-nearest gives, reading both zeros as 0: x - 0 = x, 0 - y = -y
  and a - b = -(b - a).
\<close>

definition ieee_sub :: "double_arith \<Rightarrow> bool" where
  "ieee_sub M =
    ((\<forall>x. dsub M x 0 = x) \<and> (\<forall>y. dsub M 0 y = - y) \<and> (\<forall>a b. dsub M a b = - dsub M b a))"

text \<open>
  The applied lift and the pending lift are not both non-zero.
\<close>

definition lift_exclusive :: "GCodeWriter \<Rightarrow> bool" where
  "lift_exclusive w = (\<not> (m_lifted w \<noteq> 0 \<and> m_to_lift w \<noteq> 0))"

text \<open>
  One operation from a writer to the next: the arithmetic is kept, the result is
  exclusive, and a pending lift is kept, set to zero, or set from zero.
\<close>

definition lift_step :: "GCodeWriter \<Rightarrow> GCodeWriter \<Rightarrow> bool" where
  "lift_step w w' =
    (arith w' = arith w \<and> lift_exclusive w'
     \<and> (m_to_lift w' = m_to_lift w \<or> m_to_lift w' = 0 \<or> m_to_lift w = 0))"

text \<open>
  The condition under which set_travel_acceleration has a result: there is no travel
  acceleration configured, or no tool is selected, or the physical extruder of the
  selected tool indexes the vector of travel accelerations.
\<close>

definition travel_acceleration_ok :: "GCodeWriter \<Rightarrow> bool" where
  "travel_acceleration_ok w =
    (let accs = (if m_is_first_layer w then m_first_layer_travel_accelerations w
                 else m_travel_accelerations w)
     in accs = [] \<or> filament w = None
        \<or> (\<exists>f. deref w (filament w) = Some f \<and> 0 \<le> m_extruder_id f
                \<and> nat (m_extruder_id f) < length accs))"

text \<open>
  The condition under which a Z move has a result: a tool is selected (its travel speed is
  read) and set_travel_acceleration has a result.
\<close>

definition z_move_ok :: "GCodeWriter \<Rightarrow> bool" where
  "z_move_ok w = ((\<exists>s. z_speed False w = Some s) \<and> travel_acceleration_ok w)"

text \<open>Two writers that agree on the configuration, the arithmetic and the tools.\<close>

definition same_tools :: "GCodeWriter \<Rightarrow> GCodeWriter \<Rightarrow> bool" where
  "same_tools w w' =
    (config w' = config w \<and> arith w' = arith w
     \<and> m_filament_extruders w' = m_filament_extruders w
     \<and> m_curr_extruder_id w' = m_curr_extruder_id w
     \<and> m_curr_filament_extruder w' = m_curr_filament_extruder w
     \<and> m_is_first_layer w' = m_is_first_layer w
     \<and> m_travel_accelerations w' = m_travel_accelerations w
     \<and> m_first_layer_travel_accelerations w' = m_first_layer_travel_accelerations w)"

text \<open>The line \<^verbatim>\<open>G1 Z<z> F<f>\<close> of a Z move at speed \<open>s\<close>.\<close>

definition z_move_line :: "double_arith \<Rightarrow> real \<Rightarrow> real \<Rightarrow> string" where
  "z_move_line M z s =
    ''G1 Z''
    @ emit_digits (round_int64 M (dmul M z (10 ^ XYZF_EXPORT_DIGITS))) XYZF_EXPORT_DIGITS
    @ '' F''
    @ emit_digits (round_int64 M (dmul M (dmul M s 60) (10 ^ XYZF_EXPORT_DIGITS)))
        XYZF_EXPORT_DIGITS
    @ newline"

text \<open>The example writer with tool 0 selected, lifted by 0.4 to Z 0.6.\<close>

definition lifted_writer :: GCodeWriter where
  "lifted_writer = example_writer_tool0\<lparr>m_lifted := 2 / 5, m_pos := Vec3d 0 0 (3 / 5)\<rparr>"

text \<open>
  The id of the tool currently selected, if any.
\<close>

definition selected :: "GCodeWriter \<Rightarrow> 32 word option" where
  "selected w = map_option m_id (deref w (filament w))"

text \<open>
  What set_extruder expects of the writer: the tools are sorted by id, as set_extruders
  leaves them, t is the id of one of them, the physical extruder indices are not negative,
  and the pointer to the current tool, when set, points to a tool.
\<close>

definition tools_ready :: "32 word \<Rightarrow> GCodeWriter \<Rightarrow> bool" where
  "tools_ready t w =
    (sorted (map m_id (m_filament_extruders w))
     \<and> t \<in> m_id ` set (m_filament_extruders w)
     \<and> (\<forall>e \<in> set (m_filament_extruders w). 0 \<le> m_extruder_id e)
     \<and> (filament w \<noteq> None \<longrightarrow> deref w (filament w) \<noteq> None))"

text \<open>
  A writer as set_extruders leaves it for the single tool 0: multiple_extruders is false.
\<close>

definition single_writer :: GCodeWriter where
  "single_writer =
     example_writer\<lparr>m_filament_extruders := [example_extruder 0], multiple_extruders := False\<rparr>"

text \<open>
  The length retract asks the current tool f to be retracted by: the retraction length
  of the tool, times its retract_before_wipe factor when the retraction comes before a
  wipe (a double product), and 1 under firmware retraction.
\<close>

definition requested_length :: "bool \<Rightarrow> GCodeWriter \<Rightarrow> Extruder \<Rightarrow> real" where
  "requested_length before_wipe w f =
    (if use_firmware_retraction (config w) then 1
     else dmul (arith w) (if before_wipe then retract_before_wipe f else 1)
            (retraction_length f))"

text \<open>
  The example writer with tool 0 selected, under the MakerWare dialect.
\<close>

definition makerware_writer :: GCodeWriter where
  "makerware_writer =
     example_writer_tool0\<lparr>config := example_config\<lparr>gcode_flavor := gcfMakerWare\<rparr>\<rparr>"

text \<open>
  Tool 0 of the example after a retraction by its full length 0.8, and a writer holding
  it in place of tool 0.
\<close>

definition retracted_extruder :: Extruder where
  "retracted_extruder = (example_extruder 0)\<lparr>m_E := - (4 / 5), m_retracted := 4 / 5\<rparr>"

definition retracted :: "GCodeWriter \<Rightarrow> GCodeWriter" where
  "retracted w = store 0 retracted_extruder w"

text \<open>
  The cumulative extruded length E of the tool currently selected, if any.
\<close>

definition current_E :: "GCodeWriter \<Rightarrow> real option" where
  "current_E w = map_option m_E (deref w (filament w))"

text \<open>
  The example writer with tool 0 selected, in relative extrusion mode.
\<close>

definition relative_writer :: GCodeWriter where
  "relative_writer =
     example_writer_tool0\<lparr>config := example_config\<lparr>use_relative_e_distances := True\<rparr>\<rparr>"

text \<open>
  The configured lift heights are not negative.
\<close>

definition hop_nonneg :: "PrintConfig \<Rightarrow> bool" where
  "hop_nonneg c = ((\<forall>i. 0 \<le> z_hop c i) \<and> 0 \<le> prime_tower_lift_height c)"

text \<open>
  Both lift scalars are not negative.
\<close>

definition lift_nonneg :: "GCodeWriter \<Rightarrow> bool" where
  "lift_nonneg w = (0 \<le> m_lifted w \<and> 0 \<le> m_to_lift w)"

text \<open>
  The difference of doubles x > y is not negative, as with any monotone rounding.
\<close>

definition sub_monotone :: "double_arith \<Rightarrow> bool" where
  "sub_monotone M = (\<forall>x y. y < x \<longrightarrow> 0 \<le> dsub M x y)"

text \<open>
  The lift the branch without a Z move computes for a request of z, before the clamp: the
  lift minus the distance of z from the nominal Z, in three double subtractions.
\<close>

definition absorb_residual :: "real \<Rightarrow> GCodeWriter \<Rightarrow> real" where
  "absorb_residual z w =
    dsub (arith w) (m_lifted w)
      (dsub (arith w) z (dsub (arith w) (z3 (m_pos w)) (m_lifted w)))"

text \<open>
  The call, when it takes the branch without a Z move on a lifted writer, computes a lift
  above -EPSILON.
\<close>

fun absorb_ok :: "operation \<Rightarrow> GCodeWriter \<Rightarrow> bool" where
  "absorb_ok (TravelToZ z c) w =
     (will_move_z z w \<or> m_lifted w = 0 \<or> - EPSILON < absorb_residual z w)"
| "absorb_ok (TravelToXYZ p c) w =
     (\<bar>m_to_lift w\<bar> > EPSILON \<or> will_move_z (z3 p) w \<or> m_lifted w = 0
      \<or> - EPSILON < absorb_residual (z3 p) w)"
| "absorb_ok _ w = True"

text \<open>
  Every call of a sequence, made on the writer the calls before it leave, satisfies
  \<open>absorb_ok\<close>.
\<close>

fun absorb_ok_run :: "operation list \<Rightarrow> GCodeWriter \<Rightarrow> bool" where
  "absorb_ok_run [] w = True"
| "absorb_ok_run (c # cs) w =
     (absorb_ok c w
      \<and> (case exec c w of None \<Rightarrow> True | Some (g, w1) \<Rightarrow> absorb_ok_run cs w1))"

text \<open>
  What a call keeps when the lift scalars stay non-negative: the arithmetic and the
  configuration.
\<close>

definition lift_kept :: "GCodeWriter \<Rightarrow> GCodeWriter \<Rightarrow> bool" where
  "lift_kept w w' = (arith w' = arith w \<and> config w' = config w \<and> lift_nonneg w')"






section \<open>Properties\<close>

lemma to_chars_nat_small: "n < 10 \<Longrightarrow> to_chars_nat n = [digit_char n]"
  by (simp add: to_chars_nat.simps)

lemma to_chars_nat_big:
  "\<not> n < 10 \<Longrightarrow> to_chars_nat n = to_chars_nat (n div 10) @ [digit_char (n mod 10)]"
  by (subst to_chars_nat.simps) simp

lemma to_chars_nat_nonempty: "to_chars_nat n \<noteq> []"
  by (cases "n < 10") (simp_all add: to_chars_nat_small to_chars_nat_big)

lemma trim_zeros_bounds: "p - int i \<le> trim_zeros s p i \<and> trim_zeros s p i \<le> p"
  by (induction s p i rule: trim_zeros.induct) auto

lemma two_chars: "2 \<le> length t \<Longrightarrow> t \<notin> {[], [c]}"
  by (cases t) auto

lemma emit_finish:
  assumes len: "2 \<le> length s" and lo: "- 1 \<le> p" and hi: "p < int (length s)"
  shows "take (nat ((if p + 1 = 0 \<or> s ! nat p = CHR ''-'' then p + 1 else p) + 1))
           (if p + 1 = 0 \<or> s ! nat p = CHR ''-''
            then s[nat (if p + 1 = 0 \<or> s ! nat p = CHR ''-'' then p + 1 else p) := CHR ''0'']
            else s) \<notin> {[], ''-''}"
proof -
  obtain a b r where s: "s = a # b # r"
    using len by (cases s; cases "tl s") auto
  consider (before) "p = - 1" | (minus) k where "p = int k" "s ! k = CHR ''-''"
    | (other) k where "p = int k" "s ! k \<noteq> CHR ''-''"
  proof (cases "p = - 1")
    case True
    then show ?thesis using before by simp
  next
    case False
    with lo have "0 \<le> p" by simp
    then obtain k where "p = int k" using nonneg_int_cases by blast
    then show ?thesis using minus other by blast
  qed
  then show ?thesis
  proof cases
    case before
    then show ?thesis using s by simp
  next
    case minus
    have n: "nat (p + 1) = Suc k" "nat (p + 1 + 1) = Suc (Suc k)" using minus by simp_all
    have "2 \<le> length (take (Suc (Suc k)) (s[Suc k := CHR ''0'']))"
      using len by simp
    then have "take (Suc (Suc k)) (s[Suc k := CHR ''0'']) \<notin> {[], ''-''}"
      by (rule two_chars)
    then show ?thesis using minus n by simp
  next
    case other
    have n: "nat (p + 1) = Suc k" using other by simp
    have "take (Suc k) s \<notin> {[], ''-''}"
    proof (cases k)
      case 0
      then show ?thesis using other s by simp
    next
      case (Suc j)
      then show ?thesis using s by simp
    qed
    then show ?thesis using other n by simp
  qed
qed

lemma emit_digits_mantissa: "emit_digits v_int digits \<notin> {[], ''-''}"
proof -
  define s0 where "s0 = to_chars v_int"
  define wd where "wd = length s0 - (if v_int < 0 then 1 else 0)"
  define s1 where "s1 = (if wd < digits
               then take (length s0 - wd) s0 @ replicate (digits - wd) CHR ''0''
                    @ drop (length s0 - wd) s0
               else s0)"
  define p1 where "p1 = (if wd < digits then length s0 + (digits - wd) else length s0)"
  define s2 where "s2 = take (p1 - digits) s1 @ CHR ''.'' # drop (p1 - digits) s1"
  define p2 where "p2 = trim_zeros s2 (int p1) digits"
  define p3 where "p3 = (if s2 ! nat p2 = CHR ''.'' then p2 - 1 else p2)"
  have s0ne: "s0 \<noteq> []" by (simp add: s0_def to_chars_def to_chars_nat_nonempty)
  have wdle: "wd \<le> length s0" by (simp add: wd_def)
  have len1: "length s1 = p1" using wdle by (auto simp: s1_def p1_def)
  have p1pos: "1 \<le> p1" using s0ne by (cases s0) (auto simp: p1_def)
  have dle: "digits \<le> p1"
    using wdle by (auto simp: p1_def wd_def split: if_splits)
  have len2: "length s2 = Suc p1" using len1 dle by (simp add: s2_def)
  have b2: "int p1 - int digits \<le> p2 \<and> p2 \<le> int p1"
    unfolding p2_def by (rule trim_zeros_bounds)
  have "2 \<le> length s2" using len2 p1pos by simp
  moreover have "- 1 \<le> p3" using b2 dle by (simp add: p3_def)
  moreover have "p3 < int (length s2)" using b2 len2 by (simp add: p3_def)
  ultimately have "take (nat ((if p3 + 1 = 0 \<or> s2 ! nat p3 = CHR ''-'' then p3 + 1 else p3) + 1))
           (if p3 + 1 = 0 \<or> s2 ! nat p3 = CHR ''-''
            then s2[nat (if p3 + 1 = 0 \<or> s2 ! nat p3 = CHR ''-'' then p3 + 1 else p3) := CHR ''0'']
            else s2) \<notin> {[], ''-''}"
    by (rule emit_finish)
  moreover have "emit_digits v_int digits = take (nat ((if p3 + 1 = 0 \<or> s2 ! nat p3 = CHR ''-'' then p3 + 1 else p3) + 1))
           (if p3 + 1 = 0 \<or> s2 ! nat p3 = CHR ''-''
            then s2[nat (if p3 + 1 = 0 \<or> s2 ! nat p3 = CHR ''-'' then p3 + 1 else p3) := CHR ''0'']
            else s2)"
    unfolding emit_digits_def Let_def p3_def p2_def s2_def p1_def s1_def wd_def s0_def ..
  ultimately show ?thesis by simp
qed

lemma digits_cases: "digits \<le> 9 \<Longrightarrow> digits \<in> {0, 1, 2, 3, 4, 5, 6, 7, 8, 9::nat}"
  by auto

lemma emit_digits_zero_0: "emit_digits 0 0 = ''0''" by code_simp
lemma emit_digits_zero_1: "emit_digits 0 1 = ''0''" by code_simp
lemma emit_digits_zero_2: "emit_digits 0 2 = ''0''" by code_simp
lemma emit_digits_zero_3: "emit_digits 0 3 = ''0''" by code_simp
lemma emit_digits_zero_4: "emit_digits 0 4 = ''0''" by code_simp
lemma emit_digits_zero_5: "emit_digits 0 5 = ''0''" by code_simp
lemma emit_digits_zero_6: "emit_digits 0 6 = ''0''" by code_simp
lemma emit_digits_zero_7: "emit_digits 0 7 = ''0''" by code_simp
lemma emit_digits_zero_8: "emit_digits 0 8 = ''0''" by code_simp
lemma emit_digits_zero_9: "emit_digits 0 9 = ''0''" by code_simp

lemma emit_digits_zero: "digits \<le> 9 \<Longrightarrow> emit_digits 0 digits = ''0''"
  using emit_digits_zero_0 emit_digits_zero_1 emit_digits_zero_2 emit_digits_zero_3
    emit_digits_zero_4 emit_digits_zero_5 emit_digits_zero_6 emit_digits_zero_7
    emit_digits_zero_8 emit_digits_zero_9
  by (auto dest!: digits_cases)

lemma pow_10_nth: "digits \<le> 9 \<Longrightarrow> pow_10 ! digits = 10 ^ digits"
  by (auto dest!: digits_cases simp: pow_10_def)

lemma trim_zeros_numeral:
  "trim_zeros s p (numeral k) =
     (if s ! nat p \<noteq> CHR ''0'' then p else trim_zeros s (p - 1) (pred_numeral k))"
  by (simp add: numeral_eq_Suc)

lemma replicate_numeral_eval:
  "replicate (numeral k) x = x # replicate (pred_numeral k) x"
  by (simp add: numeral_eq_Suc)

lemma list_update_numeral_eval:
  "(x # xs)[numeral k := y] = x # xs[pred_numeral k := y]"
  by (simp add: numeral_eq_Suc)

lemma emit_digits_eval:
  assumes "to_chars v = s0"
    and "length s0 - (if v < 0 then 1 else 0) = wd"
    and "(if wd < d then take (length s0 - wd) s0 @ replicate (d - wd) CHR ''0''
                    @ drop (length s0 - wd) s0 else s0) = s1"
    and "(if wd < d then length s0 + (d - wd) else length s0) = p1"
    and "take (p1 - d) s1 @ CHR ''.'' # drop (p1 - d) s1 = s2"
    and "trim_zeros s2 (int p1) d = p2"
    and "(if s2 ! nat p2 = CHR ''.'' then p2 - 1 else p2) = p3"
    and "(if p3 + 1 = 0 \<or> s2 ! nat p3 = CHR ''-'' then p3 + 1 else p3) = p4"
    and "(if p3 + 1 = 0 \<or> s2 ! nat p3 = CHR ''-'' then s2[nat p4 := CHR ''0''] else s2) = s3"
    and "take (nat (p4 + 1)) s3 = r"
  shows "emit_digits v d = r"
  unfolding emit_digits_def Let_def assms ..

lemmas digits_eval = to_chars_def to_chars_nat_small to_chars_nat_big digit_char_def
  trim_zeros_numeral replicate_numeral_eval list_update_numeral_eval

lemma emit_axis_Some:
  assumes "digits \<le> 9"
  shows "emit_axis M axis v digits buf
         = Some (buf @ CHR '' '' # axis
                 # emit_digits (round_int64 M (dmul M v (10 ^ digits))) digits)"
  using assms by (simp add: emit_axis_def pow_10_nth Let_def)

text \<open>
  Claim C8. For a digit count of at most 9, the text written for a number is never empty
  and never a lone minus sign, whatever integer the scaled value is rounded and converted
  to; emit_axis writes that text after a blank and the axis letter, on any machine
  arithmetic; and when the integer the machine rounds the scaled value to is zero, the
  text is exactly \<open>0\<close>.
\<close>

theorem emit_axis_mantissa_never_empty:
  assumes "digits \<le> 9"
  shows "emit_digits v_int digits \<noteq> [] \<and> emit_digits v_int digits \<noteq> ''-''
    \<and> (\<exists>m. emit_axis M axis v digits buf = Some (buf @ CHR '' '' # axis # m)
           \<and> m \<noteq> [] \<and> m \<noteq> ''-''
           \<and> (round_int64 M (dmul M v (10 ^ digits)) = 0 \<longrightarrow> m = ''0''))"
proof -
  have a: "emit_digits k digits \<noteq> [] \<and> emit_digits k digits \<noteq> ''-''" for k
    using emit_digits_mantissa [of k digits] by simp
  have b: "round_int64 M (dmul M v (10 ^ digits)) = 0
           \<longrightarrow> emit_digits (round_int64 M (dmul M v (10 ^ digits))) digits = ''0''"
    using emit_digits_zero [OF assms] by simp
  show ?thesis
    using a [of v_int] a [of "round_int64 M (dmul M v (10 ^ digits))"] b
      emit_axis_Some [OF assms, of M axis v buf]
    by blast
qed

lemma exact_arith_simps:
  "dadd exact_arith = (+)" "dsub exact_arith = (-)" "dmul exact_arith = (*)"
  "ddiv exact_arith = (/)" "round_int64 exact_arith = std_round"
  by (simp_all add: exact_arith_def)

theorem emit_axis_mantissa_never_empty_witness:
  "(3::nat) \<le> 9 \<and> emit_digits (- 5) 3 \<noteq> [] \<and> emit_digits (- 5) 3 \<noteq> ''-''
   \<and> round_int64 exact_arith (dmul exact_arith (- 4 / 10000) (10 ^ 3)) = 0
   \<and> emit_axis exact_arith CHR ''Z'' (- 4 / 10000) 3 ''G1'' = Some ''G1 Z0''"
proof -
  have r: "round_int64 exact_arith (dmul exact_arith (- 4 / 10000) (10 ^ 3)) = 0"
    by (simp add: exact_arith_simps std_round_def)
  show ?thesis
    using emit_axis_mantissa_never_empty
      [of 3 "- 5" exact_arith "CHR ''Z''" "- 4 / 10000" "''G1''"] r
    by auto
qed


lemma accel_only_refl: "accel_only w w"
  unfolding accel_only_def by (rule exI [of _ "m_last_acceleration w"]) simp

lemma accel_only_upd: "accel_only w (w\<lparr>m_last_acceleration := a\<rparr>)"
  unfolding accel_only_def by blast

lemma accel_only_fields:
  assumes "accel_only w w'"
  shows "m_lifted w' = m_lifted w" "m_to_lift w' = m_to_lift w" "m_pos w' = m_pos w"
    "config w' = config w" "m_filament_extruders w' = m_filament_extruders w"
    "m_curr_extruder_id w' = m_curr_extruder_id w"
    "m_curr_filament_extruder w' = m_curr_filament_extruder w"
    "m_is_first_layer w' = m_is_first_layer w"
    "m_travel_accelerations w' = m_travel_accelerations w"
    "m_first_layer_travel_accelerations w' = m_first_layer_travel_accelerations w"
    "m_current_position_clear w' = m_current_position_clear w"
    "m_to_lift_type w' = m_to_lift_type w"
    "NDEBUG w' = NDEBUG w" "multiple_extruders w' = multiple_extruders w"
    "m_x_offset w' = m_x_offset w" "m_y_offset w' = m_y_offset w"
    "arith w' = arith w"
  using assms by (auto simp: accel_only_def)

lemma set_acceleration_impl_accel_only:
  "set_acceleration_impl A w = (g, w') \<Longrightarrow> accel_only w w'"
  by (auto simp: set_acceleration_impl_def Let_def accel_only_refl accel_only_upd
      split: if_splits)

lemma set_travel_acceleration_accel_only:
  assumes "set_travel_acceleration w = Some (g, w')"
  shows "accel_only w w'"
proof -
  have "w' = w \<or> (\<exists>A. set_acceleration_impl A w = (g, w'))"
    using assms
    by (auto simp: set_travel_acceleration_def Let_def bind_eq_Some_conv
        split: if_splits option.splits)
  then show ?thesis
    using accel_only_refl set_acceleration_impl_accel_only by auto
qed

lemma set_travel_acceleration_lift:
  "set_travel_acceleration w = Some (g, w') \<Longrightarrow> same_lift w w'"
  by (simp add: same_lift_def accel_only_fields [OF set_travel_acceleration_accel_only])

lemma travel_to_z_impl_lift:
  assumes "travel_to_z_impl z c tc w = Some (g, w')"
  shows "same_lift w w' \<and> z3 (m_pos w') = z"
proof -
  from assms obtain a where
    "set_travel_acceleration (w\<lparr>m_pos := Vec3d (x3 (m_pos w)) (y3 (m_pos w)) z\<rparr>) = Some (a, w')"
    by (auto simp: travel_to_z_impl_def Let_def bind_eq_Some_conv)
  from accel_only_fields [OF set_travel_acceleration_accel_only [OF this]]
  show ?thesis by (simp add: same_lift_def)
qed

lemma spiral_travel_to_z_impl_lift:
  assumes "spiral_travel_to_z_impl z ij c tc w = Some (g, w')"
  shows "same_lift w w'"
proof -
  from assms obtain a where
    "set_travel_acceleration (w\<lparr>m_pos := Vec3d (x3 (m_pos w)) (y3 (m_pos w)) z\<rparr>) = Some (a, w')"
    by (auto simp: spiral_travel_to_z_impl_def Let_def bind_eq_Some_conv)
  from accel_only_fields [OF set_travel_acceleration_accel_only [OF this]]
  show ?thesis by (simp add: same_lift_def)
qed

lemma travel_to_xy_lift:
  assumes "travel_to_xy p c w = Some (g, w')"
  shows "same_lift w w'"
proof -
  from assms obtain a where
    "set_travel_acceleration (w\<lparr>m_pos := Vec3d (x2 p) (y2 p) (z3 (m_pos w)),
                m_current_position_clear := True\<rparr>) = Some (a, w')"
    by (auto simp: travel_to_xy_def Let_def bind_eq_Some_conv)
  from accel_only_fields [OF set_travel_acceleration_accel_only [OF this]]
  show ?thesis by (simp add: same_lift_def)
qed

lemma slope_move_lift:
  assumes "slope_move s t w = Some (g, w')"
  shows "same_lift w w'"
proof -
  have "w' = w \<or> (\<exists>z ij c tc. spiral_travel_to_z_impl z ij c tc w = Some (g, w'))
     \<or> (\<exists>z c tc. travel_to_z_impl z c tc w = Some (g, w'))"
    using assms
    by (auto simp: slope_move_def Let_def bind_eq_Some_conv split: if_splits)
  then show ?thesis
    using spiral_travel_to_z_impl_lift travel_to_z_impl_lift
    by (auto simp: same_lift_def)
qed

lemma xy_then_z_lift:
  assumes "xy_then_z t c w = Some (g, w')"
  shows "same_lift w w'"
proof -
  have "w' = w \<or> (\<exists>z c tc g. travel_to_z_impl z c tc w = Some (g, w'))"
    using assms
    by (auto simp: xy_then_z_def Let_def bind_eq_Some_conv split: if_splits)
  then show ?thesis
    using travel_to_z_impl_lift by (auto simp: same_lift_def)
qed

lemma same_lift_refl: "same_lift w w" by (simp add: same_lift_def)

lemma store_lift [simp]:
  "m_lifted (store i e w) = m_lifted w" "m_to_lift (store i e w) = m_to_lift w"
  "arith (store i e w) = arith w" "config (store i e w) = config w"
  by (simp_all add: store_def)

lemma set_extrude_acceleration_lift:
  "same_lift w (snd (set_extrude_acceleration w))"
  by (simp add: set_extrude_acceleration_def same_lift_def
      accel_only_fields [OF set_acceleration_impl_accel_only [OF surjective_pairing]])

lemma extrude_current_lift:
  "extrude_current dE f w = Some w' \<Longrightarrow> same_lift w w'"
  by (auto simp: extrude_current_def same_lift_def bind_eq_Some_conv split: if_splits)

lemma extrude_to_xy_lift:
  assumes "extrude_to_xy p dE c f w = Some (g, w')"
  shows "same_lift w w'"
proof -
  from assms obtain w1 where
    1: "extrude_current dE f (w\<lparr>m_pos := Vec3d (x2 p) (y2 p) (z3 (m_pos w))\<rparr>) = Some w1"
    and 2: "snd (set_extrude_acceleration w1) = w'"
    by (auto simp: extrude_to_xy_def Let_def bind_eq_Some_conv split_def)
  show ?thesis
    using extrude_current_lift [OF 1] set_extrude_acceleration_lift [of w1] 2
    by (simp add: same_lift_def)
qed

lemma extrude_arc_to_xy_lift:
  assumes "extrude_arc_to_xy p ij dE ccw c f w = Some (g, w')"
  shows "same_lift w w'"
proof -
  from assms obtain w1 where
    1: "extrude_current dE f (w\<lparr>m_pos := Vec3d (x2 p) (y2 p) (z3 (m_pos w))\<rparr>) = Some w1"
    and 2: "snd (set_extrude_acceleration w1) = w'"
    by (auto simp: extrude_arc_to_xy_def Let_def bind_eq_Some_conv split_def)
  show ?thesis
    using extrude_current_lift [OF 1] set_extrude_acceleration_lift [of w1] 2
    by (simp add: same_lift_def)
qed

lemma extrude_to_xyz_lift:
  assumes "extrude_to_xyz p dE c f w = Some (g, w')"
  shows "m_lifted w' = 0 \<and> m_to_lift w' = m_to_lift w \<and> arith w' = arith w
       \<and> config w' = config w"
proof -
  from assms obtain w1 where
    1: "extrude_current dE f (w\<lparr>m_pos := p, m_lifted := 0\<rparr>) = Some w1"
    and 2: "snd (set_extrude_acceleration w1) = w'"
    by (auto simp: extrude_to_xyz_def Let_def bind_eq_Some_conv split_def)
  show ?thesis
    using extrude_current_lift [OF 1] set_extrude_acceleration_lift [of w1] 2
    by (simp add: same_lift_def)
qed

lemma reset_e_lift: "reset_e force w = Some (g, w') \<Longrightarrow> same_lift w w'"
  by (auto simp: reset_e_def Let_def bind_eq_Some_conv same_lift_def split: if_splits)

lemma retract_impl_lift: "retract_impl l r c w = Some (g, w') \<Longrightarrow> same_lift w w'"
  by (auto simp: retract_impl_def Let_def bind_eq_Some_conv same_lift_def split_def
      split: if_splits)

lemma retract_lift: "retract bw w = Some (g, w') \<Longrightarrow> same_lift w w'"
  by (auto simp: retract_def Let_def bind_eq_Some_conv dest: retract_impl_lift)

lemma retract_for_toolchange_lift:
  "retract_for_toolchange bw w = Some (g, w') \<Longrightarrow> same_lift w w'"
  by (auto simp: retract_for_toolchange_def Let_def bind_eq_Some_conv dest: retract_impl_lift)

lemma unretract_lift:
  assumes "unretract w = Some (g, w')"
  shows "same_lift w w'"
proof -
  have "(\<exists>i e. w' = store i e w) \<or> (\<exists>i e r. reset_e False (store i e w) = Some (r, w'))"
    using assms
    by (auto simp: unretract_def Let_def bind_eq_Some_conv split_def split: if_splits)
  then show ?thesis
    using reset_e_lift by (auto simp: same_lift_def)
qed

lemma toolchange_lift:
  assumes "toolchange t w = Some (g, w')"
  shows "same_lift w w'"
proof -
  have "(\<exists>i f. w' = w\<lparr>m_curr_extruder_id := i, m_curr_filament_extruder := f\<rparr>)
     \<or> (\<exists>i f r. reset_e True (w\<lparr>m_curr_extruder_id := i, m_curr_filament_extruder := f\<rparr>)
           = Some (r, w'))"
    using assms
    by (auto simp: toolchange_def Let_def bind_eq_Some_conv split: if_splits)
  then show ?thesis
    using reset_e_lift by (auto simp: same_lift_def)
qed

lemma set_extruder_lift:
  assumes "set_extruder t w = Some (g, w')"
  shows "same_lift w w'"
proof -
  have "w' = w \<or> toolchange t w = Some (g, w')"
    using assms
    by (auto simp: set_extruder_def Let_def bind_eq_Some_conv split: if_splits)
  then show ?thesis
    using toolchange_lift by (auto simp: same_lift_refl)
qed

lemma init_extruder_lift: "init_extruder t w = Some w' \<Longrightarrow> same_lift w w'"
  by (auto simp: init_extruder_def Let_def bind_eq_Some_conv same_lift_def split: if_splits)

lemma preamble_lift:
  assumes "preamble w = Some (g, w')"
  shows "same_lift w w'"
proof -
  have "w' = w \<or> (\<exists>r. reset_e True w = Some (r, w'))"
    using assms
    by (auto simp: preamble_def Let_def bind_eq_Some_conv split: if_splits)
  then show ?thesis
    using reset_e_lift by (auto simp: same_lift_refl)
qed

lemma set_speed_lift: "set_speed F c m w = Some (g, w') \<Longrightarrow> same_lift w w'"
  by (auto simp: set_speed_def bind_eq_Some_conv same_lift_def)

lemma setters_lift:
  "same_lift w (snd (set_bed_temperature t wait w))"
  "same_lift w (snd (set_chamber_temperature t wait w))"
  "same_lift w (set_acceleration a w)"
  "same_lift w (set_travel_accelerations accs w)"
  "same_lift w (set_first_layer_travel_acceleration accs w)"
  "same_lift w (set_first_layer b w)"
  "same_lift w (reset_last_acceleration w)"
  by (simp_all add: same_lift_def set_bed_temperature_def set_chamber_temperature_def
      set_acceleration_def set_travel_accelerations_def set_first_layer_travel_acceleration_def
      set_first_layer_def reset_last_acceleration_def Let_def)


lemma same_lift_step: "same_lift w w' \<Longrightarrow> lift_exclusive w \<Longrightarrow> lift_step w w'"
  by (simp add: same_lift_def lift_step_def lift_exclusive_def)

lemma lazy_lift_step:
  assumes "lazy_lift t sv tc w = Some (g, w')" and ex: "lift_exclusive w"
  shows "lift_step w w'"
proof -
  from assms obtain tl where tl: "target_lift_of tc w = Some tl"
    by (auto simp: lazy_lift_def bind_eq_Some_conv)
  show ?thesis
  proof (cases "m_lifted w = 0 \<and> m_to_lift w = 0 \<and> tl > 0")
    case False
    then have "w' = w" using assms tl by (auto simp: lazy_lift_def)
    then show ?thesis using ex by (simp add: lift_step_def)
  next
    case True
    show ?thesis
    proof (cases sv)
      case True
      with \<open>m_lifted w = 0 \<and> m_to_lift w = 0 \<and> tl > 0\<close> assms tl
      have "travel_to_z_impl (dadd (arith w) (z3 (m_pos w)) tl) ''lift Z'' tc
              (w\<lparr>m_lifted := tl\<rparr>) = Some (g, w')"
        by (simp add: lazy_lift_def)
      from travel_to_z_impl_lift [OF this] \<open>m_lifted w = 0 \<and> m_to_lift w = 0 \<and> tl > 0\<close>
      show ?thesis by (simp add: same_lift_def lift_step_def lift_exclusive_def)
    next
      case False
      with True assms tl have "w' = w\<lparr>m_to_lift := tl, m_to_lift_type := t\<rparr>"
        by (auto simp: lazy_lift_def)
      then show ?thesis using True by (simp add: lift_step_def lift_exclusive_def)
    qed
  qed
qed

lemma eager_lift_step:
  assumes "eager_lift t tc w = Some (g, w')" and ex: "lift_exclusive w"
  shows "lift_step w w'"
proof -
  from assms obtain tl where tl: "target_lift_of tc w = Some tl"
    by (auto simp: eager_lift_def bind_eq_Some_conv)
  show ?thesis
  proof (cases "dsub (arith w) tl (m_lifted w) < EPSILON")
    case True
    then have "w' = w"
      using assms(1) tl by (simp add: eager_lift_def Let_def)
    then show ?thesis using ex by (simp add: lift_step_def)
  next
    case False
    with assms(1) tl obtain lm w1 where
      L: "(if t = SpiralLift \<and> m_current_position_clear w
          then (if dsub (arith w) tl (m_lifted w) > 0
                then spiral_travel_to_z_impl
                       (dadd (arith w) (z3 (m_pos w)) (dsub (arith w) tl (m_lifted w)))
                       (Vec2d (spiral_radius (arith w) (dsub (arith w) tl (m_lifted w))) 0)
                       ''spiral lift Z'' tc w
                else Some ([], w))
          else if dsub (arith w) tl (m_lifted w) > 0
          then travel_to_z_impl
                 (dadd (arith w) (z3 (m_pos w)) (dsub (arith w) tl (m_lifted w)))
                 ''normal lift Z'' tc w
          else Some ([], w)) = Some (lm, w1)"
      and w': "w' = w1\<lparr>m_lifted := tl, m_to_lift := 0\<rparr>"
      by (simp add: eager_lift_def Let_def bind_eq_Some_conv) blast
    have "same_lift w w1"
      using L
      by (auto split: if_splits simp: same_lift_refl
          dest: spiral_travel_to_z_impl_lift travel_to_z_impl_lift)
    then show ?thesis using w' by (simp add: lift_step_def lift_exclusive_def same_lift_def)
  qed
qed

lemma unlift_step:
  assumes "unlift w = Some (g, w')"
  shows "lift_step w w'"
  using assms
  by (auto simp: unlift_def bind_eq_Some_conv lift_step_def lift_exclusive_def same_lift_def
      split: if_splits dest!: travel_to_z_impl_lift)

lemma absorb_lift_flat:
  assumes "ieee_sub (arith w)" and "m_lifted w = 0" and "\<not> will_move_z z w"
  shows "absorb_lift z w = 0"
proof -
  have g: "\<bar>dsub (arith w) (z3 (m_pos w)) z\<bar> < EPSILON"
    using assms(2,3) by (simp add: will_move_z_def split: if_splits)
  have n: "dsub (arith w) (z3 (m_pos w)) 0 = z3 (m_pos w)"
    using assms(1) unfolding ieee_sub_def by blast
  have 1: "dsub (arith w) 0 (dsub (arith w) z (z3 (m_pos w)))
           = - dsub (arith w) z (z3 (m_pos w))"
    using assms(1) unfolding ieee_sub_def by blast
  have 2: "dsub (arith w) z (z3 (m_pos w)) = - dsub (arith w) (z3 (m_pos w)) z"
    using assms(1) unfolding ieee_sub_def by blast
  have 3: "\<bar>dsub (arith w) 0 (dsub (arith w) z (z3 (m_pos w)))\<bar> < EPSILON"
    unfolding 1 using g 2 by linarith
  show ?thesis
    unfolding absorb_lift_def Let_def assms(2) n using 3 by (rule if_P)
qed

lemma absorb_exclusive:
  assumes "ieee_sub (arith w)" and "lift_exclusive w" and "\<not> will_move_z z w"
  shows "absorb_lift z w = 0 \<or> m_to_lift w = 0"
  using absorb_lift_flat [OF assms(1) _ assms(3)] assms(2)
  by (auto simp: lift_exclusive_def)

lemma travel_to_z_step:
  assumes "travel_to_z z c w = Some (g, w')" and "ieee_sub (arith w)" and "lift_exclusive w"
  shows "lift_step w w'"
proof (cases "will_move_z z w")
  case False
  then have "w' = w\<lparr>m_lifted := absorb_lift z w\<rparr>"
    using assms(1) by (simp add: travel_to_z_def)
  then show ?thesis using absorb_exclusive [OF assms(2,3) False]
    by (auto simp: lift_step_def lift_exclusive_def)
next
  case True
  then obtain a w1 g1 where 1: "set_travel_acceleration (w\<lparr>m_lifted := 0\<rparr>) = Some (a, w1)"
    and 2: "travel_to_z_impl z c False w1 = Some (g1, w')"
    using assms(1) by (auto simp: travel_to_z_def bind_eq_Some_conv)
  show ?thesis
    using set_travel_acceleration_lift [OF 1] travel_to_z_impl_lift [OF 2]
    by (simp add: same_lift_def lift_step_def lift_exclusive_def)
qed

lemma travel_to_xyz_step:
  assumes "travel_to_xyz p c w = Some (g, w')" and "ieee_sub (arith w)" and "lift_exclusive w"
  shows "lift_step w w'"
proof (cases "\<bar>m_to_lift w\<bar> > EPSILON")
  case True
  have "\<exists>l s t sm w2 xm w3 d a. slope_move s t (w\<lparr>m_lifted := l, m_to_lift := 0\<rparr>) = Some (sm, w2)
      \<and> xy_then_z t c w2 = Some (xm, w3)
      \<and> set_travel_acceleration (w3\<lparr>m_pos := d, m_current_position_clear := True\<rparr>)
            = Some (a, w')"
    using assms(1) [unfolded travel_to_xyz_def Let_def if_P [OF True]]
    by (simp add: bind_eq_Some_conv) blast
  then obtain l s t sm w2 xm w3 d a where
    1: "slope_move s t (w\<lparr>m_lifted := l, m_to_lift := 0\<rparr>) = Some (sm, w2)"
    and 2: "xy_then_z t c w2 = Some (xm, w3)"
    and 3: "set_travel_acceleration (w3\<lparr>m_pos := d, m_current_position_clear := True\<rparr>)
            = Some (a, w')"
    by blast
  have "same_lift (w\<lparr>m_lifted := l, m_to_lift := 0\<rparr>) w'"
    using slope_move_lift [OF 1] xy_then_z_lift [OF 2] set_travel_acceleration_lift [OF 3]
    by (simp add: same_lift_def)
  then show ?thesis
    by (simp add: same_lift_def lift_step_def lift_exclusive_def)
next
  case False
  show ?thesis
  proof (cases "will_move_z (z3 p) w")
    case F2: False
    then have "travel_to_xy (to_2d p) []
            (w\<lparr>m_lifted := absorb_lift (z3 p) w, m_current_position_clear := True\<rparr>) = Some (g, w')"
      using assms(1) False by (simp add: travel_to_xyz_def)
    from travel_to_xy_lift [OF this] show ?thesis
      using absorb_exclusive [OF assms(2,3) F2]
      by (auto simp: lift_step_def same_lift_def lift_exclusive_def)
  next
    case True
    then obtain t om w2 d a where 2: "xy_then_z t c (w\<lparr>m_lifted := 0\<rparr>) = Some (om, w2)"
      and 3: "set_travel_acceleration (w2\<lparr>m_pos := d, m_current_position_clear := True\<rparr>)
            = Some (a, w')"
      using assms(1) False by (auto simp: travel_to_xyz_def Let_def bind_eq_Some_conv)
    show ?thesis
      using xy_then_z_lift [OF 2] set_travel_acceleration_lift [OF 3]
      by (simp add: same_lift_def lift_step_def lift_exclusive_def)
  qed
qed

lemma setters_lift2:
  "set_bed_temperature t wait w = (g, w') \<Longrightarrow> same_lift w w'"
  "set_chamber_temperature t wait w = (g, w') \<Longrightarrow> same_lift w w'"
  "set_extrude_acceleration w = (g, w') \<Longrightarrow> same_lift w w'"
  using setters_lift(1) [of w t wait] setters_lift(2) [of w t wait]
    set_extrude_acceleration_lift [of w]
  by auto

lemma exec_lift_step:
  assumes e: "exec c w = Some (g, w')" and i: "ieee_sub (arith w)" and ex: "lift_exclusive w"
  shows "lift_step w w'"
proof (cases c)
  case (ExtrudeToXYZ p dE cm f)
  with e show ?thesis
    by (auto dest!: extrude_to_xyz_lift simp: lift_step_def lift_exclusive_def)
next
  case (LazyLift t sv tc)
  with e ex show ?thesis by (simp add: lazy_lift_step)
next
  case (EagerLift t tc)
  with e ex show ?thesis by (simp add: eager_lift_step)
next
  case Unlift
  with e show ?thesis by (simp add: unlift_step)
next
  case (TravelToZ z cm)
  with e i ex show ?thesis by (simp add: travel_to_z_step)
next
  case (TravelToXYZ p cm)
  with e i ex show ?thesis by (simp add: travel_to_xyz_step)
next
  case (TravelToXY p cm)
  with e have "same_lift w w'" by (auto dest: travel_to_xy_lift)
  then show ?thesis using ex by (rule same_lift_step)
next
  case (ExtrudeToXY p dE cm f)
  with e have "same_lift w w'" by (auto dest: extrude_to_xy_lift)
  then show ?thesis using ex by (rule same_lift_step)
next
  case (ExtrudeArcToXY p ij dE ccw cm f)
  with e have "same_lift w w'" by (auto dest: extrude_arc_to_xy_lift)
  then show ?thesis using ex by (rule same_lift_step)
next
  case (Retract bw)
  with e have "same_lift w w'" by (auto dest: retract_lift)
  then show ?thesis using ex by (rule same_lift_step)
next
  case (RetractForToolchange bw)
  with e have "same_lift w w'" by (auto dest: retract_for_toolchange_lift)
  then show ?thesis using ex by (rule same_lift_step)
next
  case Unretract
  with e have "same_lift w w'" by (auto dest: unretract_lift)
  then show ?thesis using ex by (rule same_lift_step)
next
  case (Toolchange t)
  with e have "same_lift w w'" by (auto dest: toolchange_lift)
  then show ?thesis using ex by (rule same_lift_step)
next
  case (SetExtruder t)
  with e have "same_lift w w'" by (auto dest: set_extruder_lift)
  then show ?thesis using ex by (rule same_lift_step)
next
  case (InitExtruder t)
  with e have "same_lift w w'" by (auto dest: init_extruder_lift)
  then show ?thesis using ex by (rule same_lift_step)
next
  case (ResetE force)
  with e have "same_lift w w'" by (auto dest: reset_e_lift)
  then show ?thesis using ex by (rule same_lift_step)
next
  case Preamble
  with e have "same_lift w w'" by (auto dest: preamble_lift)
  then show ?thesis using ex by (rule same_lift_step)
next
  case (SetSpeed F cm m)
  with e have "same_lift w w'" by (auto dest: set_speed_lift)
  then show ?thesis using ex by (rule same_lift_step)
next
  case (SetBedTemperature t wait)
  with e have "same_lift w w'" by (auto dest: setters_lift2(1))
  then show ?thesis using ex by (rule same_lift_step)
next
  case (SetChamberTemperature t wait)
  with e have "same_lift w w'" by (auto dest: setters_lift2(2))
  then show ?thesis using ex by (rule same_lift_step)
next
  case (SetAcceleration a)
  with e have "same_lift w w'" using setters_lift(3) [of w a] by auto
  then show ?thesis using ex by (rule same_lift_step)
next
  case (SetTravelAccelerations accs)
  with e have "same_lift w w'" using setters_lift(4) [of w accs] by auto
  then show ?thesis using ex by (rule same_lift_step)
next
  case (SetFirstLayerTravelAcceleration accs)
  with e have "same_lift w w'" using setters_lift(5) [of w accs] by auto
  then show ?thesis using ex by (rule same_lift_step)
next
  case (SetFirstLayer b)
  with e have "same_lift w w'" using setters_lift(6) [of w b] by auto
  then show ?thesis using ex by (rule same_lift_step)
next
  case ResetLastAcceleration
  with e have "same_lift w w'" using setters_lift(7) [of w] by auto
  then show ?thesis using ex by (rule same_lift_step)
next
  case SetExtrudeAcceleration
  with e have "same_lift w w'" by (auto dest: setters_lift2(3))
  then show ?thesis using ex by (rule same_lift_step)
next
  case SetTravelAcceleration
  with e have "same_lift w w'" by (auto dest: set_travel_acceleration_lift)
  then show ?thesis using ex by (rule same_lift_step)
qed


lemma run_invariant:
  assumes step: "\<And>c w g w'. exec c w = Some (g, w') \<Longrightarrow> P w \<Longrightarrow> P w'"
  shows "run cs w = Some (gs, w') \<Longrightarrow> P w \<Longrightarrow> P w'"
proof (induction cs arbitrary: w gs)
  case Nil
  then show ?case by simp
next
  case (Cons c cs)
  from Cons.prems(1) obtain g w1 gs1 where e: "exec c w = Some (g, w1)"
    and r: "run cs w1 = Some (gs1, w')"
    by (auto split: option.splits prod.splits)
  from step [OF e Cons.prems(2)] have "P w1" .
  from Cons.IH [OF r this] show ?case .
qed

lemma exec_keeps_exclusive:
  assumes "exec c w = Some (g, w')" and "ieee_sub (arith w) \<and> lift_exclusive w"
  shows "ieee_sub (arith w') \<and> lift_exclusive w'"
  using exec_lift_step [OF assms(1)] assms(2) by (simp add: lift_step_def)

text \<open>
  Claim C1, as amended. On a machine whose subtraction of doubles is exact at zero and
  antisymmetric, every sequence of operations that starts with at most one of m_lifted and
  m_to_lift non-zero keeps it so after every operation; an operation that leaves a non-zero
  m_lifted leaves no pending lift; and one operation either leaves a pending lift as it is
  (with nothing lifted) or sets it to zero.
\<close>

theorem lift_mutual_exclusion:
  assumes "ieee_sub (arith w)" and "lift_exclusive w"
    and "run cs w = Some (gs, w1)" and "exec c w1 = Some (g, w2)"
  shows "lift_exclusive w1 \<and> lift_exclusive w2
    \<and> (m_lifted w2 \<noteq> 0 \<longrightarrow> m_to_lift w2 = 0)
    \<and> (m_to_lift w1 \<noteq> 0 \<longrightarrow>
         (m_to_lift w2 = m_to_lift w1 \<and> m_lifted w2 = 0) \<or> m_to_lift w2 = 0)"
proof -
  have 1: "ieee_sub (arith w1) \<and> lift_exclusive w1"
    using run_invariant [of "\<lambda>w. ieee_sub (arith w) \<and> lift_exclusive w", OF _ assms(3)]
      exec_keeps_exclusive assms(1,2) by blast
  have s: "lift_step w1 w2" using assms(4) 1 by (auto intro: exec_lift_step)
  show ?thesis using 1 s by (auto simp: lift_exclusive_def lift_step_def)
qed

lemma tool0_fields:
  "config example_writer_tool0 = example_config"
  "arith example_writer_tool0 = exact_arith"
  "m_filament_extruders example_writer_tool0 = [example_extruder 0, example_extruder 1]"
  "filament example_writer_tool0 = Some 0"
  "m_travel_accelerations example_writer_tool0 = []"
  "m_first_layer_travel_accelerations example_writer_tool0 = []"
  "m_is_first_layer example_writer_tool0 = False"
  "m_lifted example_writer_tool0 = 0"
  "m_to_lift example_writer_tool0 = 0"
  "m_to_lift_type example_writer_tool0 = NormalLift"
  "m_pos example_writer_tool0 = Vec3d 0 0 (1 / 5)"
  "NDEBUG example_writer_tool0 = False"
  "multiple_extruders example_writer_tool0 = True"
  "m_current_position_clear example_writer_tool0 = True"
  "m_curr_extruder_id example_writer_tool0 = 0"
  "m_curr_filament_extruder example_writer_tool0 0 = Some 0"
  by (simp_all add: example_writer_tool0_def example_writer_def filament_def)

lemma tool0_deref:
  "deref example_writer_tool0 (Some 0) = Some (example_extruder 0)"
  by (simp add: deref_def tool0_fields)

lemma tool0_target_lift: "target_lift_of False example_writer_tool0 = Some (2 / 5)"
  by (simp add: target_lift_of_def tool0_fields tool0_deref example_config_def)

lemma tool0_lazy_lift:
  "lazy_lift NormalLift False False example_writer_tool0
   = Some ([], example_writer_tool0\<lparr>m_to_lift := 2 / 5\<rparr>)"
proof -
  have "example_writer_tool0\<lparr>m_to_lift := 2 / 5, m_to_lift_type := NormalLift\<rparr>
        = example_writer_tool0\<lparr>m_to_lift := 2 / 5\<rparr>"
    by (simp add: example_writer_tool0_def example_writer_def)
  then show ?thesis
    by (simp add: lazy_lift_def tool0_target_lift tool0_fields)
qed

lemma tool0_pending_unlift:
  "unlift (example_writer_tool0\<lparr>m_to_lift := 2 / 5\<rparr>) = Some ([], example_writer_tool0)"
proof -
  have "example_writer_tool0\<lparr>m_to_lift := 0\<rparr> = example_writer_tool0"
    by (simp add: example_writer_tool0_def example_writer_def)
  then show ?thesis by (simp add: unlift_def tool0_fields)
qed

lemma tool0_pending_travel_to_z:
  "travel_to_z (1 / 5) [] (example_writer_tool0\<lparr>m_to_lift := 2 / 5\<rparr>)
   = Some ([], example_writer_tool0\<lparr>m_to_lift := 2 / 5\<rparr>)"
proof -
  have e: "example_writer_tool0\<lparr>m_to_lift := 2 / 5, m_lifted := 0\<rparr>
           = example_writer_tool0\<lparr>m_to_lift := 2 / 5\<rparr>"
    by (simp add: example_writer_tool0_def example_writer_def)
  have n: "\<not> will_move_z (1 / 5) (example_writer_tool0\<lparr>m_to_lift := 2 / 5\<rparr>)"
    by (simp add: will_move_z_def tool0_fields exact_arith_simps EPSILON_def)
  have a: "absorb_lift (1 / 5) (example_writer_tool0\<lparr>m_to_lift := 2 / 5\<rparr>) = 0"
    by (simp add: absorb_lift_def tool0_fields exact_arith_simps EPSILON_def)
  show ?thesis by (simp add: travel_to_z_def n a e)
qed

lemma exact_ieee_sub: "ieee_sub exact_arith"
  by (simp add: ieee_sub_def exact_arith_simps)

theorem lift_mutual_exclusion_witness:
  "ieee_sub (arith example_writer_tool0) \<and> lift_exclusive example_writer_tool0
   \<and> run [LazyLift NormalLift False False] example_writer_tool0
       = Some ([[]], example_writer_tool0\<lparr>m_to_lift := 2 / 5\<rparr>)
   \<and> exec (TravelToZ (1 / 5) []) (example_writer_tool0\<lparr>m_to_lift := 2 / 5\<rparr>)
       = Some ([], example_writer_tool0\<lparr>m_to_lift := 2 / 5\<rparr>)
   \<and> lift_exclusive (example_writer_tool0\<lparr>m_to_lift := 2 / 5\<rparr>)
   \<and> m_to_lift (example_writer_tool0\<lparr>m_to_lift := 2 / 5\<rparr>) = 2 / 5
   \<and> m_lifted (example_writer_tool0\<lparr>m_to_lift := 2 / 5\<rparr>) = 0"
proof -
  have i: "ieee_sub (arith example_writer_tool0)"
    by (simp add: tool0_fields exact_ieee_sub)
  have x: "lift_exclusive example_writer_tool0"
    by (simp add: lift_exclusive_def tool0_fields)
  have r: "run [LazyLift NormalLift False False] example_writer_tool0
       = Some ([[]], example_writer_tool0\<lparr>m_to_lift := 2 / 5\<rparr>)"
    by (simp add: tool0_lazy_lift)
  have e: "exec (TravelToZ (1 / 5) []) (example_writer_tool0\<lparr>m_to_lift := 2 / 5\<rparr>)
       = Some ([], example_writer_tool0\<lparr>m_to_lift := 2 / 5\<rparr>)"
    by (simp add: tool0_pending_travel_to_z)
  show ?thesis
    using lift_mutual_exclusion [OF i x r e] i x r e by (simp add: tool0_fields)
qed

theorem lift_mutual_exclusion_counterexample:
  "run [LazyLift NormalLift False False] example_writer_tool0
       = Some ([[]], example_writer_tool0\<lparr>m_to_lift := 2 / 5\<rparr>)
   \<and> m_to_lift (example_writer_tool0\<lparr>m_to_lift := 2 / 5\<rparr>) \<noteq> 0
   \<and> run [LazyLift NormalLift False False, Unlift] example_writer_tool0
       = Some ([[], []], example_writer_tool0)
   \<and> m_to_lift example_writer_tool0 = 0 \<and> m_lifted example_writer_tool0 = 0"
  by (simp add: tool0_lazy_lift tool0_pending_unlift tool0_fields)


lemma set_travel_acceleration_total:
  assumes "travel_acceleration_ok w"
  shows "\<exists>g w'. set_travel_acceleration w = Some (g, w')"
proof (cases "(if m_is_first_layer w then m_first_layer_travel_accelerations w
                 else m_travel_accelerations w) = [] \<or> filament w = None")
  case True
  then show ?thesis
    by (auto simp: set_travel_acceleration_def Let_def)
next
  case False
  then obtain f where "deref w (filament w) = Some f" "0 \<le> m_extruder_id f"
    "nat (m_extruder_id f) < length (if m_is_first_layer w then m_first_layer_travel_accelerations w
                 else m_travel_accelerations w)"
    using assms by (auto simp: travel_acceleration_ok_def Let_def)
  then show ?thesis using False
    by (cases "set_acceleration_impl ((if m_is_first_layer w then m_first_layer_travel_accelerations w
                 else m_travel_accelerations w) ! nat (m_extruder_id f)) w")
      (auto simp: set_travel_acceleration_def Let_def)
qed

lemma filament_cong:
  "m_curr_extruder_id w' = m_curr_extruder_id w \<Longrightarrow>
   m_curr_filament_extruder w' = m_curr_filament_extruder w \<Longrightarrow> filament w' = filament w"
  by (simp add: filament_def)

lemma deref_cong:
  "m_filament_extruders w' = m_filament_extruders w \<Longrightarrow> deref w' p = deref w p"
  by (cases p) (simp_all add: deref_def)

lemma same_tools_accel_only: "accel_only w w' \<Longrightarrow> same_tools w w'"
  by (simp add: same_tools_def accel_only_fields)

lemma same_tools_ok:
  assumes "same_tools w w'"
  shows "travel_acceleration_ok w' = travel_acceleration_ok w"
    and "z_speed tc w' = z_speed tc w"
    and "deref w' (filament w') = deref w (filament w)"
    and "arith w' = arith w"
proof -
  from assms have c: "config w' = config w"
    and e: "m_filament_extruders w' = m_filament_extruders w"
    and i: "m_curr_extruder_id w' = m_curr_extruder_id w"
    and p: "m_curr_filament_extruder w' = m_curr_filament_extruder w"
    and l: "m_is_first_layer w' = m_is_first_layer w"
    and t: "m_travel_accelerations w' = m_travel_accelerations w"
    and u: "m_first_layer_travel_accelerations w' = m_first_layer_travel_accelerations w"
    and a: "arith w' = arith w"
    unfolding same_tools_def by blast+
  have f: "filament w' = filament w" using i p by (rule filament_cong)
  have d: "deref w' q = deref w q" for q using e by (rule deref_cong)
  show "travel_acceleration_ok w' = travel_acceleration_ok w"
    unfolding travel_acceleration_ok_def f d l t u ..
  show "z_speed tc w' = z_speed tc w"
    unfolding z_speed_def f d c ..
  show "deref w' (filament w') = deref w (filament w)"
    unfolding f d ..
  show "arith w' = arith w" by (rule a)
qed

lemma XYZF_le: "XYZF_EXPORT_DIGITS \<le> 9" by (simp add: XYZF_EXPORT_DIGITS_def)

lemma travel_to_z_impl_eq:
  assumes s: "z_speed tc w = Some s"
    and a: "set_travel_acceleration (w\<lparr>m_pos := Vec3d (x3 (m_pos w)) (y3 (m_pos w)) z\<rparr>)
            = Some (a, w')"
  shows "travel_to_z_impl z c tc w = Some (a @ z_move_line (arith w) z s, w')"
proof -
  define w1 where "w1 = w\<lparr>m_pos := Vec3d (x3 (m_pos w)) (y3 (m_pos w)) z\<rparr>"
  have st: "same_tools w w1" by (simp add: same_tools_def w1_def)
  have s1: "z_speed tc w1 = Some s" using s same_tools_ok(2) [OF st] by simp
  have m: "arith w1 = arith w" by (simp add: w1_def)
  show ?thesis
    unfolding travel_to_z_impl_def Let_def w1_def [symmetric]
    by (simp add: s1 a [folded w1_def] m emit_z_def emit_f_def emit_axis_Some [OF XYZF_le]
        GCodeG1Formatter_def formatter_string_def emit_comment_def full_gcode_comment_def
        newline_def z_move_line_def)
qed

lemma travel_to_z_impl_total:
  assumes "z_speed tc w = Some s" and "travel_acceleration_ok w"
  shows "\<exists>a w'. travel_to_z_impl z c tc w = Some (a @ z_move_line (arith w) z s, w')"
proof -
  define w1 where "w1 = w\<lparr>m_pos := Vec3d (x3 (m_pos w)) (y3 (m_pos w)) z\<rparr>"
  have st: "same_tools w w1" by (simp add: same_tools_def w1_def)
  obtain a w' where a: "set_travel_acceleration w1 = Some (a, w')"
    using set_travel_acceleration_total [of w1] assms(2) same_tools_ok(1) [OF st] by blast
  from travel_to_z_impl_eq [OF assms(1) a [unfolded w1_def]] show ?thesis by blast
qed

lemma z_move_line_nonempty: "z_move_line M z s \<noteq> []"
  by (simp add: z_move_line_def)

text \<open>
  Claim C2. With a lift applied and none pending, a request for a Z between the nominal Z
  (the double difference of the current Z and the lift) and the current Z returns the
  empty string and leaves in m_lifted the lift minus the distance of z from the nominal Z
  (double differences), zero when that is within EPSILON of zero; nothing else changes.
  For every other z the call, when it has a result, returns a non-empty text, sets
  m_lifted to zero and the current Z to z; and it has a result, a text ending in the line
  G1 Z.. F.., whenever a tool is selected and the travel acceleration can be read.
\<close>

theorem travel_to_z_absorbs_lift:
  assumes "m_lifted w > 0" and "m_to_lift w = 0"
  shows "(dsub (arith w) (z3 (m_pos w)) (m_lifted w) \<le> z \<and> z \<le> z3 (m_pos w) \<longrightarrow>
            travel_to_z z c w
            = Some ([], w\<lparr>m_lifted :=
                (if \<bar>dsub (arith w) (m_lifted w)
                        (dsub (arith w) z (dsub (arith w) (z3 (m_pos w)) (m_lifted w)))\<bar>
                    < EPSILON
                 then 0
                 else dsub (arith w) (m_lifted w)
                        (dsub (arith w) z (dsub (arith w) (z3 (m_pos w)) (m_lifted w))))\<rparr>))
    \<and> (\<not> (dsub (arith w) (z3 (m_pos w)) (m_lifted w) \<le> z \<and> z \<le> z3 (m_pos w)) \<longrightarrow>
         (z_move_ok w \<longrightarrow>
            (\<exists>a s w'. travel_to_z z c w = Some (a @ z_move_line (arith w) z s, w')))
         \<and> (\<forall>g w'. travel_to_z z c w = Some (g, w') \<longrightarrow>
               g \<noteq> [] \<and> m_lifted w' = 0 \<and> m_to_lift w' = 0 \<and> z3 (m_pos w') = z))"
proof -
  let ?R = "dsub (arith w) (z3 (m_pos w)) (m_lifted w) \<le> z \<and> z \<le> z3 (m_pos w)"
  have A: "travel_to_z z c w
            = Some ([], w\<lparr>m_lifted :=
                (if \<bar>dsub (arith w) (m_lifted w)
                        (dsub (arith w) z (dsub (arith w) (z3 (m_pos w)) (m_lifted w)))\<bar>
                    < EPSILON
                 then 0
                 else dsub (arith w) (m_lifted w)
                        (dsub (arith w) z (dsub (arith w) (z3 (m_pos w)) (m_lifted w))))\<rparr>)"
    if r: ?R
  proof -
    have "\<not> will_move_z z w" using r assms by (simp add: will_move_z_def)
    then show ?thesis by (simp add: travel_to_z_def absorb_lift_def Let_def)
  qed
  have mv: "will_move_z z w" if "\<not> ?R"
    using that assms by (auto simp: will_move_z_def)
  have B: "\<exists>a s w'. travel_to_z z c w = Some (a @ z_move_line (arith w) z s, w')"
    if nr: "\<not> ?R" and ok: "z_move_ok w"
  proof -
    from ok obtain s where s: "z_speed False w = Some s" and t: "travel_acceleration_ok w"
      unfolding z_move_ok_def by blast
    define w0 where "w0 = w\<lparr>m_lifted := 0\<rparr>"
    have st0: "same_tools w w0" by (simp add: same_tools_def w0_def)
    obtain a w1 where a: "set_travel_acceleration w0 = Some (a, w1)"
      using set_travel_acceleration_total [of w0] t same_tools_ok(1) [OF st0] by blast
    have st1: "same_tools w0 w1"
      using set_travel_acceleration_accel_only [OF a] by (rule same_tools_accel_only)
    have s1: "z_speed False w1 = Some s"
      using s same_tools_ok(2) [OF st0] same_tools_ok(2) [OF st1] by metis
    have t1: "travel_acceleration_ok w1"
      using t same_tools_ok(1) [OF st0] same_tools_ok(1) [OF st1] by blast
    have m1: "arith w1 = arith w"
      using same_tools_ok(4) [OF st0] same_tools_ok(4) [OF st1] by simp
    from travel_to_z_impl_total [OF s1 t1, of z c] obtain a2 w2 where
      z: "travel_to_z_impl z c False w1 = Some (a2 @ z_move_line (arith w) z s, w2)"
      unfolding m1 by blast
    have "travel_to_z z c w = Some ((a @ a2) @ z_move_line (arith w) z s, w2)"
      unfolding travel_to_z_def w0_def [symmetric] using mv [OF nr]
      by (simp add: a z)
    then show ?thesis by blast
  qed
  have C: "g \<noteq> [] \<and> m_lifted w' = 0 \<and> m_to_lift w' = 0 \<and> z3 (m_pos w') = z"
    if nr: "\<not> ?R" and e: "travel_to_z z c w = Some (g, w')" for g w'
  proof -
    from e obtain a w1 g1 where 1: "set_travel_acceleration (w\<lparr>m_lifted := 0\<rparr>) = Some (a, w1)"
      and 2: "travel_to_z_impl z c False w1 = Some (g1, w')" and g: "g = a @ g1"
      using mv [OF nr] by (auto simp: travel_to_z_def bind_eq_Some_conv)
    have "g1 \<noteq> []"
      using 2 by (auto simp: travel_to_z_impl_def Let_def bind_eq_Some_conv formatter_string_def)
    have l1: "m_lifted w1 = 0" "m_to_lift w1 = 0"
      using set_travel_acceleration_lift [OF 1] assms by (simp_all add: same_lift_def)
    have "m_lifted w' = 0 \<and> m_to_lift w' = 0 \<and> z3 (m_pos w') = z"
      using travel_to_z_impl_lift [OF 2] l1 by (simp add: same_lift_def)
    then show ?thesis using \<open>g1 \<noteq> []\<close> g by simp
  qed
  show ?thesis
    apply (rule conjI)
     apply (rule impI)
     apply (erule A)
    apply (rule impI)
    apply (rule conjI)
     apply (rule impI)
     apply (erule (1) B)
    apply (intro allI impI)
    apply (erule (1) C)
    done
qed


lemma set_travel_acceleration_none:
  assumes "m_travel_accelerations w = []" and "\<not> m_is_first_layer w"
  shows "set_travel_acceleration w = Some ([], w)"
  using assms by (simp add: set_travel_acceleration_def)

lemma lifted_fields:
  "config lifted_writer = example_config"
  "arith lifted_writer = exact_arith"
  "m_filament_extruders lifted_writer = [example_extruder 0, example_extruder 1]"
  "filament lifted_writer = Some 0"
  "m_travel_accelerations lifted_writer = []"
  "m_first_layer_travel_accelerations lifted_writer = []"
  "m_is_first_layer lifted_writer = False"
  "m_lifted lifted_writer = 2 / 5"
  "m_to_lift lifted_writer = 0"
  "m_pos lifted_writer = Vec3d 0 0 (3 / 5)"
  by (simp_all add: lifted_writer_def tool0_fields filament_def)

lemma lifted_z_speed: "z_speed False lifted_writer = Some 120"
  by (simp add: z_speed_def deref_def lifted_fields example_config_def)

lemma emit_digits_1000: "emit_digits 1000 3 = ''1''"
  by (rule emit_digits_eval [where ?s0.0 = "''1000''" and wd = 4 and ?s1.0 = "''1000''"
        and ?p1.0 = 4 and ?s2.0 = "''1.000''" and ?p2.0 = 1 and ?p3.0 = 0 and ?p4.0 = 0
        and ?s3.0 = "''1.000''"])
    (simp_all add: digits_eval)

lemma emit_digits_7200000: "emit_digits 7200000 3 = ''7200''"
  by (rule emit_digits_eval [where ?s0.0 = "''7200000''" and wd = 7 and ?s1.0 = "''7200000''"
        and ?p1.0 = 7 and ?s2.0 = "''7200.000''" and ?p2.0 = 4 and ?p3.0 = 3 and ?p4.0 = 3
        and ?s3.0 = "''7200.000''"])
    (simp_all add: digits_eval)

lemma lifted_z_move_line: "z_move_line exact_arith 1 120 = ''G1 Z1 F7200'' @ newline"
proof -
  have r: "std_round 1000 = 1000" "std_round 7200000 = 7200000"
    by (simp_all add: std_round_def)
  show ?thesis
    by (simp add: z_move_line_def exact_arith_simps XYZF_EXPORT_DIGITS_def r
        emit_digits_1000 emit_digits_7200000)
qed

lemma lifted_move:
  "travel_to_z 1 [] lifted_writer
   = Some (''G1 Z1 F7200'' @ newline, lifted_writer\<lparr>m_lifted := 0, m_pos := Vec3d 0 0 1\<rparr>)"
proof -
  have mv: "will_move_z 1 lifted_writer"
    by (simp add: will_move_z_def lifted_fields exact_arith_simps)
  define w0 where "w0 = lifted_writer\<lparr>m_lifted := 0\<rparr>"
  define w1 where "w1 = w0\<lparr>m_pos := Vec3d (x3 (m_pos w0)) (y3 (m_pos w0)) 1\<rparr>"
  have a0: "set_travel_acceleration w0 = Some ([], w0)"
    by (rule set_travel_acceleration_none) (simp_all add: w0_def lifted_fields)
  have a1: "set_travel_acceleration w1 = Some ([], w1)"
    by (rule set_travel_acceleration_none) (simp_all add: w1_def w0_def lifted_fields)
  have st: "same_tools lifted_writer w0" by (simp add: same_tools_def w0_def)
  have s: "z_speed False w0 = Some 120"
    using lifted_z_speed same_tools_ok(2) [OF st] by simp
  have m: "arith w0 = exact_arith" by (simp add: w0_def lifted_fields)
  have z: "travel_to_z_impl 1 [] False w0 = Some (''G1 Z1 F7200'' @ newline, w1)"
    using travel_to_z_impl_eq [OF s a1 [unfolded w1_def], of "[]"]
    unfolding m lifted_z_move_line w1_def [symmetric] by simp
  have q: "w1 = w0\<lparr>m_pos := Vec3d 0 0 1\<rparr>"
    by (simp add: w1_def w0_def lifted_fields)
  show ?thesis
    unfolding travel_to_z_def w0_def [symmetric] using mv
    by (simp add: a0 z q)
qed

lemma lifted_ok: "z_move_ok lifted_writer"
  unfolding z_move_ok_def
  apply (rule conjI)
   apply (rule exI [of _ 120])
   apply (rule lifted_z_speed)
  apply (simp add: travel_acceleration_ok_def lifted_fields)
  done

theorem travel_to_z_absorbs_lift_witness:
  "m_lifted lifted_writer > 0 \<and> m_to_lift lifted_writer = 0
   \<and> dsub (arith lifted_writer) (z3 (m_pos lifted_writer)) (m_lifted lifted_writer) = 1 / 5
   \<and> z3 (m_pos lifted_writer) = 3 / 5
   \<and> travel_to_z (2 / 5) [] lifted_writer = Some ([], lifted_writer\<lparr>m_lifted := 1 / 5\<rparr>)
   \<and> z_move_ok lifted_writer
   \<and> travel_to_z 1 [] lifted_writer
     = Some (''G1 Z1 F7200'' @ newline, lifted_writer\<lparr>m_lifted := 0, m_pos := Vec3d 0 0 1\<rparr>)"
proof -
  have h: "m_lifted lifted_writer > 0" "m_to_lift lifted_writer = 0"
    by (simp_all add: lifted_fields)
  have n: "dsub (arith lifted_writer) (z3 (m_pos lifted_writer)) (m_lifted lifted_writer) = 1 / 5"
    by (simp add: lifted_fields exact_arith_simps)
  have p: "z3 (m_pos lifted_writer) = 3 / 5" by (simp add: lifted_fields)
  have t: "travel_to_z (2 / 5) [] lifted_writer = Some ([], lifted_writer\<lparr>m_lifted := 1 / 5\<rparr>)"
    using travel_to_z_absorbs_lift [OF h, of "2 / 5" "[]"]
    by (simp add: lifted_fields exact_arith_simps EPSILON_def)
  have u: "\<exists>a s w'. travel_to_z 1 [] lifted_writer
                   = Some (a @ z_move_line (arith lifted_writer) 1 s, w')"
    using travel_to_z_absorbs_lift [OF h, of 1 "[]"] lifted_ok
    by (simp add: lifted_fields exact_arith_simps)
  show ?thesis
    using h n p t lifted_ok lifted_move by (intro conjI)
qed


lemma acceleration_gcode_nonempty: "acceleration_gcode w a \<noteq> []"
  by (simp add: acceleration_gcode_def Let_def newline_def)

text \<open>
  Claim C3. With a configured maximum M > 0, the value a that set_acceleration_impl
  emits is the requested one clamped to M, so a <= M; the call writes either nothing or
  the command for a (and then records a as the last emitted value); it writes nothing
  exactly when a is zero or equal to the last emitted value; and the same request made
  again right after writes nothing and changes nothing.
\<close>

theorem acceleration_clamp_and_suppression:
  assumes "m_max_acceleration w > 0"
  shows "(let a = (if A > m_max_acceleration w then m_max_acceleration w else A);
             (g1, w1) = set_acceleration_impl A w;
             (g2, w2) = set_acceleration_impl A w1
         in a \<le> m_max_acceleration w
            \<and> (g1 = [] \<or> g1 = acceleration_gcode w a \<and> m_last_acceleration w1 = a)
            \<and> (a = 0 \<or> a = m_last_acceleration w \<longrightarrow> g1 = [] \<and> w1 = w)
            \<and> (a \<noteq> 0 \<and> a \<noteq> m_last_acceleration w \<longrightarrow> g1 = acceleration_gcode w a \<and> g1 \<noteq> [])
            \<and> g2 = [] \<and> w2 = w1)"
  using assms by (auto simp: set_acceleration_impl_def Let_def acceleration_gcode_nonempty)

lemmas text_eval = to_chars_def to_chars_nat_small to_chars_nat_big digit_char_def
  show_uint_def

theorem acceleration_clamp_and_suppression_witness:
  "m_max_acceleration example_writer > 0
   \<and> m_max_acceleration example_writer = 5000
   \<and> set_acceleration_impl 9000 example_writer
       = (''M204 S5000'' @ newline, example_writer\<lparr>m_last_acceleration := 5000\<rparr>)
   \<and> set_acceleration_impl 9000 (example_writer\<lparr>m_last_acceleration := 5000\<rparr>)
       = ([], example_writer\<lparr>m_last_acceleration := 5000\<rparr>)"
  using acceleration_clamp_and_suppression [of example_writer 9000]
  by (simp add: set_acceleration_impl_def acceleration_gcode_def full_gcode_comment_def
      example_writer_def example_config_def Let_def text_eval)

text \<open>
  Claim C5, as amended. The second of two identical bed requests in succession returns
  the empty string; the first returns a command unless the writer has already recorded
  that temperature (with no wait requested, or the temperature reached). set_temperature
  keeps no state: it returns the same text at every call, and that text is empty only for
  a wait request under the MakerWare and Sailfish dialects.
\<close>

theorem temperature_requests_repeated:
  "fst (set_bed_temperature T wait (snd (set_bed_temperature T wait w))) = []
   \<and> (fst (set_bed_temperature T wait w) \<noteq> []
        \<longleftrightarrow> \<not> (T = m_last_bed_temperature w
                 \<and> (\<not> wait \<or> m_last_bed_temperature_reached w)))
   \<and> (set_temperature T' wait' tool w \<noteq> []
        \<longleftrightarrow> \<not> (wait' \<and> (gcode_flavor (config w) = gcfMakerWare
                            \<or> gcode_flavor (config w) = gcfSailfish)))"
proof -
  have a: "fst (set_bed_temperature T wait (snd (set_bed_temperature T wait w))) = []"
    by (cases wait) (simp_all add: set_bed_temperature_def Let_def)
  have b: "fst (set_bed_temperature T wait w) \<noteq> []
        \<longleftrightarrow> \<not> (T = m_last_bed_temperature w
                 \<and> (\<not> wait \<or> m_last_bed_temperature_reached w))"
    by (simp add: set_bed_temperature_def Let_def)
  have c: "set_temperature T' wait' tool w \<noteq> []
        \<longleftrightarrow> \<not> (wait' \<and> (gcode_flavor (config w) = gcfMakerWare
                            \<or> gcode_flavor (config w) = gcfSailfish))"
    by (simp add: set_temperature_def Let_def)
  from a b c show ?thesis by (intro conjI)
qed

theorem temperature_requests_repeated_witness:
  "set_bed_temperature 60 True example_writer
     = (''M190 S60 ; set bed temperature and wait for it to be reached'' @ newline,
        example_writer\<lparr>m_last_bed_temperature := 60, m_last_bed_temperature_reached := True\<rparr>)
   \<and> fst (set_bed_temperature 60 True
            (example_writer\<lparr>m_last_bed_temperature := 60,
                             m_last_bed_temperature_reached := True\<rparr>)) = []
   \<and> set_temperature 200 True 0 example_writer
     = ''M109 S200 T0 ; set nozzle temperature and wait for it to be reached'' @ newline"
  using temperature_requests_repeated [of 60 True example_writer 200 True 0]
  by (simp add: set_bed_temperature_def set_temperature_def example_writer_def
      example_config_def Let_def text_eval)

theorem temperature_requests_repeated_counterexample:
  "set_temperature 200 False (- 1) example_writer
     = ''M104 S200 ; set nozzle temperature'' @ newline
   \<and> set_temperature 200 True (- 1) example_writer
     = ''M109 S200 ; set nozzle temperature and wait for it to be reached'' @ newline
   \<and> map_option fst
        (run [SetBedTemperature 60 False, SetBedTemperature 60 False, SetBedTemperature 60 False]
           example_writer)
     = Some [''M140 S60 ; set bed temperature'' @ newline, [], []]"
  by (simp add: set_temperature_def set_bed_temperature_def example_writer_def
      example_config_def Let_def text_eval)

text \<open>
  Claim C6, as amended. set_chamber_temperature keeps no state: it leaves the writer as
  it is and returns the same non-empty text at every call, so a repeated identical request
  writes the command again.
\<close>

theorem chamber_temperature_stateless:
  "snd (set_chamber_temperature T wait w) = w
   \<and> fst (set_chamber_temperature T wait w) \<noteq> []
   \<and> set_chamber_temperature T wait (snd (set_chamber_temperature T wait w))
     = set_chamber_temperature T wait w"
  by (simp add: set_chamber_temperature_def)

theorem chamber_temperature_stateless_counterexample:
  "map_option fst
     (run [SetChamberTemperature 45 False, SetChamberTemperature 45 False] example_writer)
   = Some [''M141 S45;set chamber_temperature'' @ newline,
           ''M141 S45;set chamber_temperature'' @ newline]"
  by (simp add: set_chamber_temperature_def text_eval)


lemma lower_bound_finds:
  assumes "sorted (map m_id es)" and "t \<in> m_id ` set es"
  shows "lower_bound_by_predicate (\<lambda>e. m_id e < t) es < length es
       \<and> m_id (es ! lower_bound_by_predicate (\<lambda>e. m_id e < t) es) = t"
  using assms
proof (induction es)
  case Nil
  then show ?case by simp
next
  case (Cons e es)
  show ?case
  proof (cases "m_id e < t")
    case True
    then have "t \<in> m_id ` set es" using Cons.prems(2) by auto
    moreover have "sorted (map m_id es)" using Cons.prems(1) by simp
    ultimately show ?thesis using Cons.IH True by simp
  next
    case False
    have "m_id e \<le> t" using Cons.prems by auto
    with False have "m_id e = t" by simp
    with False show ?thesis by simp
  qed
qed

lemma selected_Some:
  "filament w = Some i \<Longrightarrow> i < length (m_filament_extruders w)
   \<Longrightarrow> selected w = Some (m_id (m_filament_extruders w ! i))"
  by (simp add: selected_def deref_def)

lemma reset_e_selected:
  assumes f: "filament w = Some i" and i: "i < length (m_filament_extruders w)"
  shows "\<exists>r w2. reset_e True w = Some (r, w2) \<and> selected w2 = selected w"
proof -
  have c: "m_curr_extruder_id w \<noteq> - 1"
    and p: "m_curr_filament_extruder w (m_curr_extruder_id w) = Some i"
    using f by (auto simp: filament_def split: if_splits)
  let ?e = "m_filament_extruders w ! i"
  let ?w2 = "store i (Extruder_reset_E ?e) w"
  have "filament ?w2 = Some i" using c p by (simp add: filament_def store_def)
  moreover have "i < length (m_filament_extruders ?w2)" using i by (simp add: store_def)
  ultimately have "selected ?w2 = Some (m_id (m_filament_extruders ?w2 ! i))"
    by (rule selected_Some)
  then have s: "selected ?w2 = selected w"
    using i selected_Some [OF f i] by (simp add: store_def Extruder_reset_E_def)
  have "reset_e True w = Some ([], w) \<or> (\<exists>r. reset_e True w = Some (r, ?w2))"
    using c p i by (simp add: reset_e_def Let_def deref_def)
  with s show ?thesis by auto
qed

lemma need_toolchange_selected:
  assumes "filament w \<noteq> None \<longrightarrow> deref w (filament w) \<noteq> None"
  shows "need_toolchange t w = Some (selected w \<noteq> Some t)"
proof (cases "filament w")
  case None
  then show ?thesis by (simp add: need_toolchange_def selected_def deref_def)
next
  case (Some i)
  with assms obtain e where "deref w (Some i) = Some e" by auto
  with Some show ?thesis by (simp add: need_toolchange_def selected_def)
qed

lemma toolchange_selects:
  assumes it: "lower_bound_by_predicate (\<lambda>e. m_id e < t) (m_filament_extruders w) = it"
    and l: "it < length (m_filament_extruders w)"
    and t: "m_id (m_filament_extruders w ! it) = t"
    and x: "0 \<le> m_extruder_id (m_filament_extruders w ! it)"
  shows "\<exists>g w'. toolchange t w = Some (g, w') \<and> selected w' = Some t
                \<and> (g \<noteq> [] \<longleftrightarrow> multiple_extruders w)"
proof -
  let ?e = "m_filament_extruders w ! it"
  let ?w1 = "w\<lparr>m_curr_extruder_id := m_extruder_id ?e,
               m_curr_filament_extruder :=
                 (m_curr_filament_extruder w)(m_extruder_id ?e := Some it)\<rparr>"
  have f1: "filament ?w1 = Some it" using x by (simp add: filament_def)
  have l1: "it < length (m_filament_extruders ?w1)" using l by simp
  have s1: "selected ?w1 = Some t" using selected_Some [OF f1 l1] t by simp
  show ?thesis
  proof (cases "multiple_extruders w")
    case False
    have "toolchange t w = Some ([], ?w1)"
      using l t x False by (simp add: toolchange_def it assert_that_def deref_def Let_def)
    with s1 False show ?thesis by simp
  next
    case True
    from reset_e_selected [OF f1 l1] obtain r w2 where
      r: "reset_e True ?w1 = Some (r, w2)" and s2: "selected w2 = selected ?w1" by blast
    have "\<exists>g. toolchange t w = Some (g @ newline @ r, w2)"
      using l t x True r by (simp add: toolchange_def it assert_that_def deref_def Let_def)
    then obtain g where "toolchange t w = Some (g @ newline @ r, w2)" ..
    moreover have "g @ newline @ r \<noteq> []" by (simp add: newline_def)
    ultimately show ?thesis using s1 s2 True by simp
  qed
qed

text \<open>
  Claim C4, as amended. For a writer whose tools are sorted by id and have t among them,
  set_extruder t has a result and the tool selected after the call is t; the text it
  returns is non-empty if and only if the writer has multiple_extruders set and t is not
  the tool selected before (another tool, or none); when t is the tool already selected
  the writer is unchanged.
\<close>

theorem set_extruder_selects:
  assumes "tools_ready t w"
  shows "\<exists>g w'. set_extruder t w = Some (g, w') \<and> selected w' = Some t
          \<and> (g \<noteq> [] \<longleftrightarrow> multiple_extruders w \<and> selected w \<noteq> Some t)
          \<and> (selected w = Some t \<longrightarrow> w' = w)"
proof -
  define it where "it = lower_bound_by_predicate (\<lambda>e. m_id e < t) (m_filament_extruders w)"
  have srt: "sorted (map m_id (m_filament_extruders w))"
    and mem: "t \<in> m_id ` set (m_filament_extruders w)"
    and pos: "\<forall>e \<in> set (m_filament_extruders w). 0 \<le> m_extruder_id e"
    and val: "filament w \<noteq> None \<longrightarrow> deref w (filament w) \<noteq> None"
    using assms unfolding tools_ready_def by blast+
  have l: "it < length (m_filament_extruders w)"
    and t: "m_id (m_filament_extruders w ! it) = t"
    using lower_bound_finds [OF srt mem] unfolding it_def by blast+
  have x: "0 \<le> m_extruder_id (m_filament_extruders w ! it)" using pos l by simp
  have n: "need_toolchange t w = Some (selected w \<noteq> Some t)"
    using val by (rule need_toolchange_selected)
  have s: "set_extruder t w = (if selected w \<noteq> Some t then toolchange t w else Some ([], w))"
    using l t n
    by (simp add: set_extruder_def it_def [symmetric] assert_that_def deref_def Let_def)
  show ?thesis
  proof (cases "selected w = Some t")
    case True
    then show ?thesis using s by simp
  next
    case False
    from toolchange_selects [OF it_def [symmetric] l t x] obtain g w' where
      "toolchange t w = Some (g, w')" "selected w' = Some t" "g \<noteq> [] \<longleftrightarrow> multiple_extruders w"
      by blast
    then show ?thesis using s False by simp
  qed
qed

lemma example_tools_ready: "tools_ready 1 example_writer"
  by (simp add: tools_ready_def example_writer_def example_extruder_def filament_def)

theorem set_extruder_selects_witness:
  "tools_ready 1 example_writer \<and> multiple_extruders example_writer
   \<and> selected example_writer = None
   \<and> (\<exists>w'. set_extruder 1 example_writer = Some (''T1'' @ newline @ ''G92 E0'' @ newline, w')
            \<and> selected w' = Some 1)"
proof -
  have a: "multiple_extruders example_writer" "selected example_writer = None"
    by (simp_all add: example_writer_def selected_def filament_def deref_def)
  have b: "set_extruder 1 example_writer
     = Some (''T1'' @ newline @ ''G92 E0'' @ newline,
             example_writer\<lparr>m_curr_extruder_id := 1,
                m_curr_filament_extruder := (\<lambda>_. None)(1 := Some 1),
                m_filament_extruders := [example_extruder 0, example_extruder 1]\<rparr>)"
    by (simp add: set_extruder_def toolchange_def need_toolchange_def reset_e_def
        toolchange_prefix_def assert_that_def deref_def filament_def store_def
        Extruder_reset_E_def full_gcode_comment_def
        example_writer_def example_config_def example_extruder_def Let_def text_eval)
  from set_extruder_selects [OF example_tools_ready] a b example_tools_ready
  show ?thesis by auto
qed

theorem set_extruder_selects_counterexample:
  "set_extruders example_extruder [0] example_writer = Some single_writer
   \<and> filament single_writer = None
   \<and> set_extruder 0 single_writer
     = Some ([], single_writer\<lparr>m_curr_extruder_id := 0,
                m_curr_filament_extruder := (\<lambda>_. None)(0 := Some 0)\<rparr>)"
  by (simp add: set_extruders_def set_extruder_def toolchange_def need_toolchange_def
      assert_that_def deref_def filament_def single_writer_def
      example_writer_def example_extruder_def Let_def)


lemma Extruder_retract_done:
  assumes "fst (Extruder_retract len r e) = 0"
  shows "Extruder_retract len r e = (0, e)"
  using assms by (simp add: Extruder_retract_def Let_def split: if_splits)

lemma Extruder_retract_again:
  "fst (Extruder_retract len r (snd (Extruder_retract len r e))) = 0"
  by (simp add: Extruder_retract_def Let_def)

lemma Extruder_retract_delta:
  "fst (Extruder_retract len r e) \<noteq> 0 \<longleftrightarrow> m_retracted e < len"
  by (auto simp: Extruder_retract_def Let_def)

lemma Extruder_retract_params:
  "retraction_length (snd (Extruder_retract len r e)) = retraction_length e"
  "retract_before_wipe (snd (Extruder_retract len r e)) = retract_before_wipe e"
  "retract_restart_extra (snd (Extruder_retract len r e)) = retract_restart_extra e"
  by (simp_all add: Extruder_retract_def Let_def)

lemma emit_e_Some: "\<exists>s. emit_e M v buf = Some (buf @ s)"
  by (simp add: emit_e_def E_EXPORT_DIGITS_def emit_axis_Some)

lemma emit_f_Some: "\<exists>s. emit_f M v buf = Some (buf @ s)"
  by (simp add: emit_f_def XYZF_EXPORT_DIGITS_def emit_axis_Some)

lemma retract_line_nonempty:
  "\<exists>g. (do { b1 \<leftarrow> emit_e M v GCodeG1Formatter;
              b2 \<leftarrow> emit_f M s b1;
              Some (formatter_string (emit_comment full_gcode_comment c b2)) }) = Some g
        \<and> g \<noteq> []"
proof -
  obtain s1 where 1: "emit_e M v GCodeG1Formatter = Some (GCodeG1Formatter @ s1)"
    using emit_e_Some by blast
  obtain s2 where 2: "emit_f M s (GCodeG1Formatter @ s1) = Some ((GCodeG1Formatter @ s1) @ s2)"
    using emit_f_Some by blast
  show ?thesis by (simp add: 1 2 formatter_string_def)
qed

lemma retract_impl_done:
  assumes f: "filament w = Some i" and i: "i < length (m_filament_extruders w)"
    and z: "fst (Extruder_retract (if use_firmware_retraction (config w) then 1 else len) r
              (m_filament_extruders w ! i)) = 0"
  shows "retract_impl len r c w
         = Some (if gcode_flavor (config w) = gcfMakerWare
                 then ''M103 ; extruder off'' @ newline else [], w)"
proof -
  have s: "store i (m_filament_extruders w ! i) w = w" by (simp add: store_def)
  show ?thesis
    unfolding retract_impl_def Let_def f
    using i by (simp add: deref_def Extruder_retract_done [OF z] s store_def)
qed

lemma retract_impl_first:
  assumes f: "filament w = Some i" and i: "i < length (m_filament_extruders w)"
    and e: "retract_impl len r c w = Some (g, w1)"
  shows "w1 = store i (snd (Extruder_retract
                 (if use_firmware_retraction (config w) then 1 else len) r
                 (m_filament_extruders w ! i))) w
       \<and> (gcode_flavor (config w) \<noteq> gcfMakerWare \<longrightarrow>
            (g \<noteq> [] \<longleftrightarrow> fst (Extruder_retract
                 (if use_firmware_retraction (config w) then 1 else len) r
                 (m_filament_extruders w ! i)) \<noteq> 0))"
proof -
  let ?L = "if use_firmware_retraction (config w) then 1 else len"
  let ?f = "m_filament_extruders w ! i"
  let ?w1 = "store i (snd (Extruder_retract ?L r ?f)) w"
  have c: "config ?w1 = config w" by (simp add: store_def)
  from e have "w1 = ?w1 \<and> (gcode_flavor (config w) \<noteq> gcfMakerWare \<longrightarrow>
            (g \<noteq> [] \<longleftrightarrow> fst (Extruder_retract ?L r ?f) \<noteq> 0))"
    unfolding retract_impl_def Let_def f split_def
    using i
    by (auto simp: deref_def c newline_def emit_e_def emit_f_def E_EXPORT_DIGITS_def
        XYZF_EXPORT_DIGITS_def emit_axis_Some formatter_string_def split: if_splits)
  then show ?thesis .
qed

text \<open>
  Claim C7, as amended. When retract has a result, the same call made again right after
  changes nothing and returns the empty string, except under the MakerWare dialect, where
  it returns the line M103 again; and outside that dialect the first call returns a
  non-empty text if and only if the tool was retracted by less than the requested length.
\<close>

theorem retract_twice:
  assumes "retract b w = Some (g1, w1)"
  shows "retract b w1 = Some (if gcode_flavor (config w) = gcfMakerWare
                              then ''M103 ; extruder off'' @ newline else [], w1)
       \<and> (\<exists>f. deref w (filament w) = Some f
              \<and> (gcode_flavor (config w) \<noteq> gcfMakerWare \<longrightarrow>
                   (g1 \<noteq> [] \<longleftrightarrow> m_retracted f < requested_length b w f)))"
proof -
  from assms obtain f where d: "deref w (filament w) = Some f"
    by (auto simp: retract_def bind_eq_Some_conv)
  then obtain i where fi: "filament w = Some i" and i: "i < length (m_filament_extruders w)"
    and f: "f = m_filament_extruders w ! i"
    by (auto simp: deref_def split: option.splits if_splits)
  define factor where "factor = (if b then retract_before_wipe f else 1)"
  define len where "len = dmul (arith w) factor (retraction_length f)"
  define r where "r = dmul (arith w) factor (retract_restart_extra f)"
  define L where "L = (if use_firmware_retraction (config w) then 1 else len)"
  have a: "assert_that w (factor \<ge> 0 \<and> factor \<le> dadd (arith w) 1 EPSILON) = Some ()"
    and e: "retract_impl len r ''retract'' w = Some (g1, w1)"
    using assms d
    by (auto simp: retract_def Let_def bind_eq_Some_conv factor_def len_def r_def)
  define f1 where "f1 = snd (Extruder_retract L r f)"
  have w1: "w1 = store i f1 w"
    and g1: "gcode_flavor (config w) \<noteq> gcfMakerWare \<longrightarrow>
               (g1 \<noteq> [] \<longleftrightarrow> fst (Extruder_retract L r f) \<noteq> 0)"
    using retract_impl_first [OF fi i e] unfolding f1_def L_def f by blast+
  have rl: "requested_length b w f = L"
    by (simp add: requested_length_def L_def len_def factor_def)
  have "filament w1 = filament w" by (simp add: w1 filament_def store_def)
  with fi have fi1: "filament w1 = Some i" by simp
  have i1: "i < length (m_filament_extruders w1)" using i by (simp add: w1 store_def)
  have t1: "m_filament_extruders w1 ! i = f1" using i by (simp add: w1 store_def)
  have c1: "config w1 = config w" "arith w1 = arith w" "NDEBUG w1 = NDEBUG w"
    by (simp_all add: w1 store_def)
  have d1: "deref w1 (filament w1) = Some f1" using fi1 i1 t1 by (simp add: deref_def)
  have p1: "retraction_length f1 = retraction_length f"
    "retract_before_wipe f1 = retract_before_wipe f"
    "retract_restart_extra f1 = retract_restart_extra f"
    by (simp_all add: f1_def Extruder_retract_params)
  have a1: "assert_that w1 (factor \<ge> 0 \<and> factor \<le> dadd (arith w) 1 EPSILON) = Some ()"
    using a by (simp add: assert_that_def c1)
  have z: "fst (Extruder_retract (if use_firmware_retraction (config w1) then 1 else len) r
              (m_filament_extruders w1 ! i)) = 0"
    unfolding t1 c1 f1_def L_def [symmetric] by (rule Extruder_retract_again)
  have "retract b w1
        = do { _ \<leftarrow> assert_that w1 (factor \<ge> 0 \<and> factor \<le> dadd (arith w) 1 EPSILON);
               retract_impl len r ''retract'' w1 }"
    by (simp only: retract_def d1 Option.bind.bind_lunit Let_def p1 c1 factor_def len_def
        r_def)
  also have "\<dots> = retract_impl len r ''retract'' w1"
    by (simp only: a1 Option.bind.bind_lunit)
  also have "\<dots> = Some (if gcode_flavor (config w1) = gcfMakerWare
                 then ''M103 ; extruder off'' @ newline else [], w1)"
    using fi1 i1 z by (rule retract_impl_done)
  finally have second: "retract b w1 = Some (if gcode_flavor (config w) = gcfMakerWare
                              then ''M103 ; extruder off'' @ newline else [], w1)"
    by (simp add: c1)
  have "gcode_flavor (config w) \<noteq> gcfMakerWare \<longrightarrow>
                   (g1 \<noteq> [] \<longleftrightarrow> m_retracted f < requested_length b w f)"
    using g1 by (simp add: rl Extruder_retract_delta)
  with second d show ?thesis by blast
qed


lemma emit_digits_m80000: "emit_digits (- 80000) 5 = ''-.8''"
  by (rule emit_digits_eval [where ?s0.0 = "''-80000''" and wd = 5 and ?s1.0 = "''-80000''"
        and ?p1.0 = 6 and ?s2.0 = "''-.80000''" and ?p2.0 = 2 and ?p3.0 = 2 and ?p4.0 = 2
        and ?s3.0 = "''-.80000''"])
    (simp_all add: digits_eval)

lemma emit_digits_1800000: "emit_digits 1800000 3 = ''1800''"
  by (rule emit_digits_eval [where ?s0.0 = "''1800000''" and wd = 7 and ?s1.0 = "''1800000''"
        and ?p1.0 = 7 and ?s2.0 = "''1800.000''" and ?p2.0 = 4 and ?p3.0 = 3 and ?p4.0 = 3
        and ?s3.0 = "''1800.000''"])
    (simp_all add: digits_eval)

lemma emit_e_retracted:
  assumes "v = - (4 / 5)"
  shows "emit_e exact_arith v buf = Some (buf @ '' E-.8'')"
proof -
  have "std_round (- 80000) = - 80000" by (simp add: std_round_def)
  then show ?thesis
    by (simp add: emit_e_def E_EXPORT_DIGITS_def emit_axis_Some exact_arith_simps assms
        emit_digits_m80000)
qed

lemma emit_f_retract:
  assumes "v = 1800"
  shows "emit_f exact_arith v buf = Some (buf @ '' F1800'')"
proof -
  have "std_round 1800000 = 1800000" by (simp add: std_round_def)
  then show ?thesis
    by (simp add: emit_f_def XYZF_EXPORT_DIGITS_def emit_axis_Some exact_arith_simps assms
        emit_digits_1800000)
qed

lemma retract_eval:
  assumes f: "filament w = Some 0"
    and t: "m_filament_extruders w = [example_extruder 0, example_extruder 1]"
    and a: "arith w = exact_arith"
    and u: "use_firmware_retraction (config w) = False"
  shows "retract False w
         = Some (''G1 E-.8 F1800'' @ newline
                 @ (if gcode_flavor (config w) = gcfMakerWare
                    then ''M103 ; extruder off'' @ newline else []),
                 retracted w)"
proof -
  have d: "deref w (Some 0) = Some (example_extruder 0)" by (simp add: deref_def t)
  have s: "assert_that w (1 \<le> dadd (arith w) 1 EPSILON) = Some ()"
    by (simp add: assert_that_def a exact_arith_simps EPSILON_def)
  have x: "Extruder_retract (4 / 5) 0 (example_extruder 0) = (4 / 5, retracted_extruder)"
    by (simp add: Extruder_retract_def retracted_extruder_def example_extruder_def Let_def)
  have l: "dmul (arith w) 1 (retraction_length (example_extruder 0)) = 4 / 5"
    "dmul (arith w) 1 (retract_restart_extra (example_extruder 0)) = 0"
    by (simp_all add: a exact_arith_simps example_extruder_def)
  have r: "retract False w = retract_impl (4 / 5) 0 ''retract'' w"
    by (simp add: retract_def f d s l)
  have q: "config (store 0 retracted_extruder w) = config w"
    by (simp add: store_def)
  have e: "emit_e exact_arith (m_E retracted_extruder) GCodeG1Formatter
           = Some (GCodeG1Formatter @ '' E-.8'')"
    by (rule emit_e_retracted) (simp add: retracted_extruder_def)
  have g: "emit_f exact_arith (dmul exact_arith (retract_speed retracted_extruder) 60)
             (GCodeG1Formatter @ '' E-.8'')
           = Some ((GCodeG1Formatter @ '' E-.8'') @ '' F1800'')"
    by (rule emit_f_retract)
      (simp add: retracted_extruder_def example_extruder_def exact_arith_simps)
  show ?thesis
    apply (simp add: r retract_impl_def Let_def f d u x q a e g)
    apply (simp add: formatter_string_def emit_comment_def
        full_gcode_comment_def GCodeG1Formatter_def newline_def retracted_def)
    done
qed

lemma retract_eval_again:
  assumes f: "filament w = Some 0"
    and t: "m_filament_extruders w = [retracted_extruder, example_extruder 1]"
    and a: "arith w = exact_arith"
    and u: "use_firmware_retraction (config w) = False"
  shows "retract False w
         = Some (if gcode_flavor (config w) = gcfMakerWare
                 then ''M103 ; extruder off'' @ newline else [], w)"
proof -
  have d: "deref w (Some 0) = Some retracted_extruder" by (simp add: deref_def t)
  have s: "assert_that w (1 \<le> dadd (arith w) 1 EPSILON) = Some ()"
    by (simp add: assert_that_def a exact_arith_simps EPSILON_def)
  have l: "dmul (arith w) 1 (retraction_length retracted_extruder) = 4 / 5"
    "dmul (arith w) 1 (retract_restart_extra retracted_extruder) = 0"
    by (simp_all add: a exact_arith_simps example_extruder_def retracted_extruder_def)
  have r: "retract False w = retract_impl (4 / 5) 0 ''retract'' w"
    by (simp add: retract_def f d s l)
  have i: "0 < length (m_filament_extruders w)" by (simp add: t)
  have z: "fst (Extruder_retract (if use_firmware_retraction (config w) then 1 else 4 / 5) 0
              (m_filament_extruders w ! 0)) = 0"
    by (simp add: u t Extruder_retract_def retracted_extruder_def Let_def)
  show ?thesis
    unfolding r using retract_impl_done [OF f i z, of "''retract''"] by simp
qed

lemma retracted_fields:
  assumes "filament w = Some 0"
    and "m_filament_extruders w = [example_extruder 0, example_extruder 1]"
    and "arith w = exact_arith"
    and "use_firmware_retraction (config w) = False"
  shows "filament (retracted w) = Some 0"
    and "m_filament_extruders (retracted w) = [retracted_extruder, example_extruder 1]"
    and "arith (retracted w) = exact_arith"
    and "use_firmware_retraction (config (retracted w)) = False"
proof -
  have "filament (retracted w) = filament w"
    by (simp add: retracted_def store_def filament_def)
  then show "filament (retracted w) = Some 0" using assms(1) by simp
  show "m_filament_extruders (retracted w) = [retracted_extruder, example_extruder 1]"
    using assms(2) by (simp add: retracted_def store_def)
  show "arith (retracted w) = exact_arith" using assms(3) by (simp add: retracted_def store_def)
  show "use_firmware_retraction (config (retracted w)) = False"
    using assms(4) by (simp add: retracted_def store_def)
qed

lemma retracted_config: "config (retracted w) = config w"
  by (simp add: retracted_def store_def)

lemma tool0_retract_fields:
  "filament example_writer_tool0 = Some 0"
  "m_filament_extruders example_writer_tool0 = [example_extruder 0, example_extruder 1]"
  "arith example_writer_tool0 = exact_arith"
  "use_firmware_retraction (config example_writer_tool0) = False"
  by (simp_all add: tool0_fields example_config_def)

lemma tool0_retract:
  "retract False example_writer_tool0
   = Some (''G1 E-.8 F1800'' @ newline, retracted example_writer_tool0)"
  using retract_eval [OF tool0_retract_fields]
  by (simp add: tool0_fields example_config_def)

lemma tool0_retract_again:
  "retract False (retracted example_writer_tool0)
   = Some ([], retracted example_writer_tool0)"
  using retract_eval_again [OF retracted_fields [OF tool0_retract_fields]]
  by (simp add: retracted_config tool0_fields example_config_def)

lemma makerware_fields:
  "filament makerware_writer = Some 0"
  "m_filament_extruders makerware_writer = [example_extruder 0, example_extruder 1]"
  "arith makerware_writer = exact_arith"
  "use_firmware_retraction (config makerware_writer) = False"
  by (simp_all add: makerware_writer_def tool0_fields filament_def example_config_def)

lemma makerware_flavor: "gcode_flavor (config makerware_writer) = gcfMakerWare"
  by (simp add: makerware_writer_def)

lemma makerware_retract:
  "retract False makerware_writer
   = Some (''G1 E-.8 F1800'' @ newline @ ''M103 ; extruder off'' @ newline,
           retracted makerware_writer)"
  using retract_eval [OF makerware_fields] by (simp add: makerware_flavor)

lemma makerware_retract_again:
  "retract False (retracted makerware_writer)
   = Some (''M103 ; extruder off'' @ newline, retracted makerware_writer)"
  using retract_eval_again [OF retracted_fields [OF makerware_fields]]
  by (simp add: retracted_config makerware_flavor)

theorem retract_twice_witness:
  "retract False example_writer_tool0
     = Some (''G1 E-.8 F1800'' @ newline, retracted example_writer_tool0)
   \<and> retract False (retracted example_writer_tool0)
     = Some ([], retracted example_writer_tool0)
   \<and> gcode_flavor (config example_writer_tool0) \<noteq> gcfMakerWare
   \<and> deref example_writer_tool0 (filament example_writer_tool0) = Some (example_extruder 0)
   \<and> m_retracted (example_extruder 0) = 0
   \<and> requested_length False example_writer_tool0 (example_extruder 0) = 4 / 5"
proof -
  have a: "gcode_flavor (config example_writer_tool0) \<noteq> gcfMakerWare"
    by (simp add: tool0_fields example_config_def)
  have b: "deref example_writer_tool0 (filament example_writer_tool0)
           = Some (example_extruder 0)"
    by (simp add: tool0_fields tool0_deref)
  have c: "m_retracted (example_extruder 0) = 0" by (simp add: example_extruder_def)
  have d: "requested_length False example_writer_tool0 (example_extruder 0) = 4 / 5"
    by (simp add: requested_length_def tool0_fields example_config_def example_extruder_def
        exact_arith_simps)
  have e: "retract False (retracted example_writer_tool0)
     = Some ([], retracted example_writer_tool0)"
    using retract_twice [OF tool0_retract] a by simp
  show ?thesis using tool0_retract a b c d e by (intro conjI)
qed

theorem retract_twice_counterexample:
  "map_option fst (run [Retract False, Retract False] makerware_writer)
     = Some [''G1 E-.8 F1800'' @ newline @ ''M103 ; extruder off'' @ newline,
             ''M103 ; extruder off'' @ newline]
   \<and> map_option fst (run [Retract False, Retract False, Retract False] example_writer_tool0)
     = Some [''G1 E-.8 F1800'' @ newline, [], []]"
  by (simp add: makerware_retract makerware_retract_again tool0_retract tool0_retract_again)


lemma current_E_Some:
  "filament w = Some i \<Longrightarrow> i < length (m_filament_extruders w)
   \<Longrightarrow> current_E w = Some (m_E (m_filament_extruders w ! i))"
  by (simp add: current_E_def deref_def)

lemma filament_store: "filament (store i e w) = filament w"
  by (simp add: filament_def store_def)

lemma reset_e_cases:
  assumes "reset_e force w = Some (g, w')"
  shows "(w' = w \<and> g = []
          \<and> (gcode_flavor (config w) = gcfMach3 \<or> gcode_flavor (config w) = gcfMakerWare
              \<or> gcode_flavor (config w) = gcfSailfish
              \<or> (\<exists>i. filament w = Some i \<and> i < length (m_filament_extruders w)
                      \<and> m_E (m_filament_extruders w ! i) = 0 \<and> \<not> force)))
       \<or> (gcode_flavor (config w) \<noteq> gcfMach3 \<and> gcode_flavor (config w) \<noteq> gcfMakerWare
          \<and> gcode_flavor (config w) \<noteq> gcfSailfish
          \<and> (use_relative_e_distances (config w) \<longrightarrow> g = [])
          \<and> (use_relative_e_distances (config w) \<or> g = ''G92 E0'' @ newline)
          \<and> ((filament w = None \<and> w' = w)
              \<or> (\<exists>i. filament w = Some i \<and> i < length (m_filament_extruders w)
                      \<and> w' = store i (Extruder_reset_E (m_filament_extruders w ! i)) w)))"
proof (cases "filament w")
  case None
  then have "\<not> (m_curr_extruder_id w \<noteq> - 1
                \<and> m_curr_filament_extruder w (m_curr_extruder_id w) \<noteq> None)"
    by (auto simp: filament_def split: if_splits)
  with assms None show ?thesis
    by (auto simp: reset_e_def Let_def full_gcode_comment_def split: if_splits)
next
  case (Some i)
  then have c: "m_curr_extruder_id w \<noteq> - 1"
    and p: "m_curr_filament_extruder w (m_curr_extruder_id w) = Some i"
    by (auto simp: filament_def split: if_splits)
  from assms show ?thesis
    unfolding reset_e_def Let_def
    using c p Some
    by (auto simp: deref_def bind_eq_Some_conv full_gcode_comment_def split: if_splits)
qed

text \<open>
  Claim C9, as amended. Under relative extrusion distances reset_e, forced or not, returns
  the empty string and keeps the selection of the tool. Under the Mach3, MakerWare and
  Sailfish dialects, and when no tool is selected, it changes nothing; otherwise the
  cumulative length E of the current tool is zero after the call, so that E is unchanged
  only if it was zero before.
\<close>

theorem reset_e_relative:
  assumes "use_relative_e_distances (config w)" and "reset_e force w = Some (g, w')"
  shows "g = [] \<and> filament w' = filament w
       \<and> (gcode_flavor (config w) = gcfMach3 \<or> gcode_flavor (config w) = gcfMakerWare
            \<or> gcode_flavor (config w) = gcfSailfish \<or> filament w = None
          \<longrightarrow> w' = w)
       \<and> (gcode_flavor (config w) \<noteq> gcfMach3 \<and> gcode_flavor (config w) \<noteq> gcfMakerWare
            \<and> gcode_flavor (config w) \<noteq> gcfSailfish \<and> filament w \<noteq> None
          \<longrightarrow> current_E w' = Some 0)"
proof -
  have z: "current_E (store i (Extruder_reset_E (m_filament_extruders w ! i)) w) = Some 0"
    if "filament w = Some i" and "i < length (m_filament_extruders w)" for i
  proof -
    let ?w = "store i (Extruder_reset_E (m_filament_extruders w ! i)) w"
    have "filament ?w = Some i" using that(1) by (simp add: filament_store)
    moreover have "i < length (m_filament_extruders ?w)" using that(2) by (simp add: store_def)
    ultimately have "current_E ?w = Some (m_E (m_filament_extruders ?w ! i))"
      by (rule current_E_Some)
    then show ?thesis using that(2) by (simp add: store_def Extruder_reset_E_def)
  qed
  from reset_e_cases [OF assms(2)] assms(1) show ?thesis
    by (auto simp: filament_store z current_E_Some)
qed

lemma relative_fields:
  "filament relative_writer = Some 0"
  "m_filament_extruders relative_writer = [example_extruder 0, example_extruder 1]"
  "arith relative_writer = exact_arith"
  "use_firmware_retraction (config relative_writer) = False"
  by (simp_all add: relative_writer_def tool0_fields filament_def example_config_def)

lemma relative_config:
  "use_relative_e_distances (config relative_writer)"
  "gcode_flavor (config relative_writer) = gcfMarlinLegacy"
  by (simp_all add: relative_writer_def example_config_def)

lemma relative_retract:
  "retract False relative_writer
   = Some (''G1 E-.8 F1800'' @ newline, retracted relative_writer)"
  using retract_eval [OF relative_fields] by (simp add: relative_config)

lemma relative_reset:
  "reset_e True (retracted relative_writer)
   = Some ([], store 0 (retracted_extruder\<lparr>m_E := 0\<rparr>) (retracted relative_writer))"
proof -
  have f: "m_curr_extruder_id (retracted relative_writer) = 0"
    "m_curr_filament_extruder (retracted relative_writer) 0 = Some 0"
    by (simp_all add: retracted_def store_def relative_writer_def tool0_fields)
  have d: "deref (retracted relative_writer) (Some 0) = Some retracted_extruder"
    by (simp add: deref_def retracted_fields(2) [OF relative_fields])
  show ?thesis
    by (simp add: reset_e_def Let_def f d retracted_config relative_config
        Extruder_reset_E_def)
qed

lemma relative_E:
  "current_E (retracted relative_writer) = Some (- (4 / 5))"
  "current_E (store 0 (retracted_extruder\<lparr>m_E := 0\<rparr>) (retracted relative_writer)) = Some 0"
proof -
  have f: "filament (retracted relative_writer) = Some 0"
    by (rule retracted_fields(1) [OF relative_fields])
  have t: "m_filament_extruders (retracted relative_writer)
           = [retracted_extruder, example_extruder 1]"
    by (rule retracted_fields(2) [OF relative_fields])
  show "current_E (retracted relative_writer) = Some (- (4 / 5))"
    by (simp add: current_E_def f t deref_def retracted_extruder_def)
  let ?w = "store 0 (retracted_extruder\<lparr>m_E := 0\<rparr>) (retracted relative_writer)"
  have f2: "filament ?w = Some 0" by (simp only: filament_store f)
  have l2: "0 < length (m_filament_extruders ?w)" by (simp add: store_def t)
  have "current_E ?w = Some (m_E (m_filament_extruders ?w ! 0))"
    using f2 l2 by (rule current_E_Some)
  then show "current_E ?w = Some 0" by (simp add: store_def t)
qed

theorem reset_e_relative_witness:
  "use_relative_e_distances (config (retracted relative_writer))
   \<and> gcode_flavor (config (retracted relative_writer)) = gcfMarlinLegacy
   \<and> filament (retracted relative_writer) = Some 0
   \<and> reset_e True (retracted relative_writer)
     = Some ([], store 0 (retracted_extruder\<lparr>m_E := 0\<rparr>) (retracted relative_writer))
   \<and> current_E (store 0 (retracted_extruder\<lparr>m_E := 0\<rparr>) (retracted relative_writer))
     = Some 0"
proof -
  have a: "use_relative_e_distances (config (retracted relative_writer))"
    "gcode_flavor (config (retracted relative_writer)) = gcfMarlinLegacy"
    by (simp_all add: retracted_config relative_config)
  have f: "filament (retracted relative_writer) = Some 0"
    by (rule retracted_fields(1) [OF relative_fields])
  have "current_E (store 0 (retracted_extruder\<lparr>m_E := 0\<rparr>) (retracted relative_writer))
        = Some 0"
    using reset_e_relative [OF a(1) relative_reset] a(2) f by simp
  with a f relative_reset show ?thesis by (intro conjI)
qed

theorem reset_e_relative_counterexample:
  "use_relative_e_distances (config relative_writer)
   \<and> run [Retract False] relative_writer
     = Some ([''G1 E-.8 F1800'' @ newline], retracted relative_writer)
   \<and> current_E (retracted relative_writer) = Some (- (4 / 5))
   \<and> run [Retract False, ResetE True] relative_writer
     = Some ([''G1 E-.8 F1800'' @ newline, []],
             store 0 (retracted_extruder\<lparr>m_E := 0\<rparr>) (retracted relative_writer))
   \<and> current_E (store 0 (retracted_extruder\<lparr>m_E := 0\<rparr>) (retracted relative_writer))
     = Some 0"
  by (simp add: relative_config relative_retract relative_reset relative_E)


lemma same_lift_kept: "same_lift w w' \<Longrightarrow> lift_nonneg w \<Longrightarrow> lift_kept w w'"
  by (simp add: same_lift_def lift_kept_def lift_nonneg_def)

lemma target_lift_nonneg:
  assumes "target_lift_of tc w = Some lift" and "hop_nonneg (config w)"
  shows "0 \<le> lift"
  using assms
  by (auto simp: target_lift_of_def hop_nonneg_def Let_def bind_eq_Some_conv split: if_splits)

lemma absorb_lift_residual:
  "absorb_lift z w = (if \<bar>absorb_residual z w\<bar> < EPSILON then 0 else absorb_residual z w)"
  by (simp add: absorb_lift_def absorb_residual_def Let_def)

lemma absorb_nonneg:
  assumes "ieee_sub (arith w)" and "\<not> will_move_z z w"
    and "m_lifted w = 0 \<or> - EPSILON < absorb_residual z w"
  shows "0 \<le> absorb_lift z w"
proof (cases "m_lifted w = 0")
  case True
  with assms(1) have "absorb_lift z w = 0" using assms(2) by (rule absorb_lift_flat)
  then show ?thesis by simp
next
  case False
  with assms(3) show ?thesis by (auto simp: absorb_lift_residual EPSILON_def)
qed

lemma lazy_lift_kept:
  assumes e: "lazy_lift t sv tc w = Some (g, w')" and h: "hop_nonneg (config w)"
    and n: "lift_nonneg w"
  shows "lift_kept w w'"
proof -
  from e obtain tl where tl: "target_lift_of tc w = Some tl"
    by (auto simp: lazy_lift_def bind_eq_Some_conv)
  have p: "0 \<le> tl" using tl h by (rule target_lift_nonneg)
  show ?thesis
  proof (cases "m_lifted w = 0 \<and> m_to_lift w = 0 \<and> tl > 0")
    case False
    then have "w' = w" using e tl by (auto simp: lazy_lift_def)
    then show ?thesis using n by (simp add: lift_kept_def)
  next
    case True
    show ?thesis
    proof (cases sv)
      case sv: True
      with True e tl
      have "travel_to_z_impl (dadd (arith w) (z3 (m_pos w)) tl) ''lift Z'' tc
              (w\<lparr>m_lifted := tl\<rparr>) = Some (g, w')"
        by (simp add: lazy_lift_def)
      from travel_to_z_impl_lift [OF this] p n
      show ?thesis by (simp add: same_lift_def lift_kept_def lift_nonneg_def)
    next
      case False
      with True e tl have "w' = w\<lparr>m_to_lift := tl, m_to_lift_type := t\<rparr>"
        by (auto simp: lazy_lift_def)
      then show ?thesis using p n by (simp add: lift_kept_def lift_nonneg_def)
    qed
  qed
qed

lemma eager_lift_kept:
  assumes e: "eager_lift t tc w = Some (g, w')" and h: "hop_nonneg (config w)"
    and n: "lift_nonneg w"
  shows "lift_kept w w'"
proof -
  from e obtain tl where tl: "target_lift_of tc w = Some tl"
    by (auto simp: eager_lift_def bind_eq_Some_conv)
  have p: "0 \<le> tl" using tl h by (rule target_lift_nonneg)
  show ?thesis
  proof (cases "dsub (arith w) tl (m_lifted w) < EPSILON")
    case True
    then have "w' = w"
      using e tl by (simp add: eager_lift_def Let_def)
    then show ?thesis using n by (simp add: lift_kept_def)
  next
    case False
    with e tl obtain lm w1 where
      L: "(if t = SpiralLift \<and> m_current_position_clear w
          then (if dsub (arith w) tl (m_lifted w) > 0
                then spiral_travel_to_z_impl
                       (dadd (arith w) (z3 (m_pos w)) (dsub (arith w) tl (m_lifted w)))
                       (Vec2d (spiral_radius (arith w) (dsub (arith w) tl (m_lifted w))) 0)
                       ''spiral lift Z'' tc w
                else Some ([], w))
          else if dsub (arith w) tl (m_lifted w) > 0
          then travel_to_z_impl
                 (dadd (arith w) (z3 (m_pos w)) (dsub (arith w) tl (m_lifted w)))
                 ''normal lift Z'' tc w
          else Some ([], w)) = Some (lm, w1)"
      and w': "w' = w1\<lparr>m_lifted := tl, m_to_lift := 0\<rparr>"
      by (simp add: eager_lift_def Let_def bind_eq_Some_conv) blast
    have "same_lift w w1"
      using L
      by (auto split: if_splits simp: same_lift_refl
          dest: spiral_travel_to_z_impl_lift travel_to_z_impl_lift)
    then show ?thesis using w' p by (simp add: lift_kept_def lift_nonneg_def same_lift_def)
  qed
qed

lemma unlift_kept:
  assumes "unlift w = Some (g, w')" and "lift_nonneg w"
  shows "lift_kept w w'"
  using assms
  by (auto simp: unlift_def bind_eq_Some_conv lift_kept_def lift_nonneg_def same_lift_def
      split: if_splits dest!: travel_to_z_impl_lift)

lemma travel_to_z_kept:
  assumes e: "travel_to_z z c w = Some (g, w')" and i: "ieee_sub (arith w)"
    and n: "lift_nonneg w"
    and a: "will_move_z z w \<or> m_lifted w = 0 \<or> - EPSILON < absorb_residual z w"
  shows "lift_kept w w'"
proof (cases "will_move_z z w")
  case False
  then have "w' = w\<lparr>m_lifted := absorb_lift z w\<rparr>"
    using e by (simp add: travel_to_z_def)
  moreover have "0 \<le> absorb_lift z w"
    using a False by (auto intro: absorb_nonneg [OF i])
  ultimately show ?thesis using n by (simp add: lift_kept_def lift_nonneg_def)
next
  case True
  then obtain a w1 g1 where 1: "set_travel_acceleration (w\<lparr>m_lifted := 0\<rparr>) = Some (a, w1)"
    and 2: "travel_to_z_impl z c False w1 = Some (g1, w')"
    using e by (auto simp: travel_to_z_def bind_eq_Some_conv)
  show ?thesis
    using set_travel_acceleration_lift [OF 1] travel_to_z_impl_lift [OF 2] n
    by (simp add: same_lift_def lift_kept_def lift_nonneg_def)
qed

lemma travel_to_xyz_kept:
  assumes e: "travel_to_xyz p c w = Some (g, w')" and i: "ieee_sub (arith w)"
    and s: "sub_monotone (arith w)" and n: "lift_nonneg w"
    and a: "\<bar>m_to_lift w\<bar> > EPSILON \<or> will_move_z (z3 p) w \<or> m_lifted w = 0
            \<or> - EPSILON < absorb_residual (z3 p) w"
  shows "lift_kept w w'"
proof (cases "\<bar>m_to_lift w\<bar> > EPSILON")
  case True
  note e1 = e [unfolded travel_to_xyz_def Let_def if_P [OF True]]
  have K: "lift_kept w w'"
    if l: "0 \<le> l"
      and x: "\<exists>s t sm w2 xm w3 d a.
        slope_move s t (w\<lparr>m_lifted := l, m_to_lift := 0\<rparr>) = Some (sm, w2)
        \<and> xy_then_z t c w2 = Some (xm, w3)
        \<and> set_travel_acceleration (w3\<lparr>m_pos := d, m_current_position_clear := True\<rparr>)
            = Some (a, w')" for l
  proof -
    from x obtain s t sm w2 xm w3 d a where
      1: "slope_move s t (w\<lparr>m_lifted := l, m_to_lift := 0\<rparr>) = Some (sm, w2)"
      and 2: "xy_then_z t c w2 = Some (xm, w3)"
      and 3: "set_travel_acceleration (w3\<lparr>m_pos := d, m_current_position_clear := True\<rparr>)
            = Some (a, w')"
      by blast
    have "same_lift (w\<lparr>m_lifted := l, m_to_lift := 0\<rparr>) w'"
      using slope_move_lift [OF 1] xy_then_z_lift [OF 2] set_travel_acceleration_lift [OF 3]
      by (simp add: same_lift_def)
    then show ?thesis
      using l by (simp add: same_lift_def lift_kept_def lift_nonneg_def)
  qed
  show ?thesis
  proof (cases "(\<not> m_current_position_clear w \<or> m_pos w \<noteq> p)
                \<and> dadd (arith w) (m_to_lift w) (z3 (m_pos w)) > z3 p")
    case B: True
    have "0 \<le> dsub (arith w) (dadd (arith w) (m_to_lift w) (z3 (m_pos w))) (z3 p)"
      using s B unfolding sub_monotone_def by blast
    moreover have "\<exists>s t sm w2 xm w3 d a.
        slope_move s t (w\<lparr>m_lifted := dsub (arith w)
            (dadd (arith w) (m_to_lift w) (z3 (m_pos w))) (z3 p), m_to_lift := 0\<rparr>)
          = Some (sm, w2)
        \<and> xy_then_z t c w2 = Some (xm, w3)
        \<and> set_travel_acceleration (w3\<lparr>m_pos := d, m_current_position_clear := True\<rparr>)
            = Some (a, w')"
      using e1 [unfolded if_P [OF B]] by (simp add: bind_eq_Some_conv) blast
    ultimately show ?thesis by (rule K)
  next
    case B: False
    have "0 \<le> m_lifted w" using n by (simp add: lift_nonneg_def)
    moreover have "\<exists>s t sm w2 xm w3 d a.
        slope_move s t (w\<lparr>m_lifted := m_lifted w, m_to_lift := 0\<rparr>) = Some (sm, w2)
        \<and> xy_then_z t c w2 = Some (xm, w3)
        \<and> set_travel_acceleration (w3\<lparr>m_pos := d, m_current_position_clear := True\<rparr>)
            = Some (a, w')"
      using e1 [unfolded if_not_P [OF B]] by (simp add: bind_eq_Some_conv) blast
    ultimately show ?thesis by (rule K)
  qed
next
  case False
  show ?thesis
  proof (cases "will_move_z (z3 p) w")
    case F2: False
    then have "travel_to_xy (to_2d p) []
            (w\<lparr>m_lifted := absorb_lift (z3 p) w, m_current_position_clear := True\<rparr>) = Some (g, w')"
      using e False by (simp add: travel_to_xyz_def)
    moreover have "0 \<le> absorb_lift (z3 p) w"
      using a False F2 by (auto intro: absorb_nonneg [OF i])
    ultimately show ?thesis
      using travel_to_xy_lift n
      by (fastforce simp: lift_kept_def same_lift_def lift_nonneg_def)
  next
    case True
    then obtain t om w2 d a where 2: "xy_then_z t c (w\<lparr>m_lifted := 0\<rparr>) = Some (om, w2)"
      and 3: "set_travel_acceleration (w2\<lparr>m_pos := d, m_current_position_clear := True\<rparr>)
            = Some (a, w')"
      using e False by (auto simp: travel_to_xyz_def Let_def bind_eq_Some_conv)
    show ?thesis
      using xy_then_z_lift [OF 2] set_travel_acceleration_lift [OF 3] n
      by (simp add: same_lift_def lift_kept_def lift_nonneg_def)
  qed
qed

lemma exec_kept:
  assumes e: "exec c w = Some (g, w')" and i: "ieee_sub (arith w)"
    and s: "sub_monotone (arith w)" and h: "hop_nonneg (config w)" and n: "lift_nonneg w"
    and a: "absorb_ok c w"
  shows "lift_kept w w'"
proof (cases c)
  case (ExtrudeToXYZ p dE cm f)
  with e have "m_lifted w' = 0 \<and> m_to_lift w' = m_to_lift w \<and> arith w' = arith w
       \<and> config w' = config w"
    by (auto dest!: extrude_to_xyz_lift)
  then show ?thesis using n by (simp add: lift_kept_def lift_nonneg_def)
next
  case (LazyLift t sv tc)
  with e h n show ?thesis by (simp add: lazy_lift_kept)
next
  case (EagerLift t tc)
  with e h n show ?thesis by (simp add: eager_lift_kept)
next
  case Unlift
  with e n show ?thesis by (simp add: unlift_kept)
next
  case (TravelToZ z cm)
  with e i n a show ?thesis by (simp add: travel_to_z_kept)
next
  case (TravelToXYZ p cm)
  with e i s n a show ?thesis by (simp add: travel_to_xyz_kept)
next
  case (TravelToXY p cm)
  with e have "same_lift w w'" by (auto dest: travel_to_xy_lift)
  then show ?thesis using n by (rule same_lift_kept)
next
  case (ExtrudeToXY p dE cm f)
  with e have "same_lift w w'" by (auto dest: extrude_to_xy_lift)
  then show ?thesis using n by (rule same_lift_kept)
next
  case (ExtrudeArcToXY p ij dE ccw cm f)
  with e have "same_lift w w'" by (auto dest: extrude_arc_to_xy_lift)
  then show ?thesis using n by (rule same_lift_kept)
next
  case (Retract bw)
  with e have "same_lift w w'" by (auto dest: retract_lift)
  then show ?thesis using n by (rule same_lift_kept)
next
  case (RetractForToolchange bw)
  with e have "same_lift w w'" by (auto dest: retract_for_toolchange_lift)
  then show ?thesis using n by (rule same_lift_kept)
next
  case Unretract
  with e have "same_lift w w'" by (auto dest: unretract_lift)
  then show ?thesis using n by (rule same_lift_kept)
next
  case (Toolchange t)
  with e have "same_lift w w'" by (auto dest: toolchange_lift)
  then show ?thesis using n by (rule same_lift_kept)
next
  case (SetExtruder t)
  with e have "same_lift w w'" by (auto dest: set_extruder_lift)
  then show ?thesis using n by (rule same_lift_kept)
next
  case (InitExtruder t)
  with e have "same_lift w w'" by (auto dest: init_extruder_lift)
  then show ?thesis using n by (rule same_lift_kept)
next
  case (ResetE force)
  with e have "same_lift w w'" by (auto dest: reset_e_lift)
  then show ?thesis using n by (rule same_lift_kept)
next
  case Preamble
  with e have "same_lift w w'" by (auto dest: preamble_lift)
  then show ?thesis using n by (rule same_lift_kept)
next
  case (SetSpeed F cm m)
  with e have "same_lift w w'" by (auto dest: set_speed_lift)
  then show ?thesis using n by (rule same_lift_kept)
next
  case (SetBedTemperature t wait)
  with e have "same_lift w w'" by (auto dest: setters_lift2(1))
  then show ?thesis using n by (rule same_lift_kept)
next
  case (SetChamberTemperature t wait)
  with e have "same_lift w w'" by (auto dest: setters_lift2(2))
  then show ?thesis using n by (rule same_lift_kept)
next
  case (SetAcceleration a)
  with e have "same_lift w w'" using setters_lift(3) [of w a] by auto
  then show ?thesis using n by (rule same_lift_kept)
next
  case (SetTravelAccelerations accs)
  with e have "same_lift w w'" using setters_lift(4) [of w accs] by auto
  then show ?thesis using n by (rule same_lift_kept)
next
  case (SetFirstLayerTravelAcceleration accs)
  with e have "same_lift w w'" using setters_lift(5) [of w accs] by auto
  then show ?thesis using n by (rule same_lift_kept)
next
  case (SetFirstLayer b)
  with e have "same_lift w w'" using setters_lift(6) [of w b] by auto
  then show ?thesis using n by (rule same_lift_kept)
next
  case ResetLastAcceleration
  with e have "same_lift w w'" using setters_lift(7) [of w] by auto
  then show ?thesis using n by (rule same_lift_kept)
next
  case SetExtrudeAcceleration
  with e have "same_lift w w'" by (auto dest: setters_lift2(3))
  then show ?thesis using n by (rule same_lift_kept)
next
  case SetTravelAcceleration
  with e have "same_lift w w'" by (auto dest: set_travel_acceleration_lift)
  then show ?thesis using n by (rule same_lift_kept)
qed


lemma exact_absorb_ok:
  assumes "dsub (arith w) = (-)"
  shows "absorb_ok c w"
proof -
  have r: "will_move_z z w \<or> - EPSILON < absorb_residual z w" for z
  proof (cases "will_move_z z w")
    case True
    then show ?thesis by simp
  next
    case False
    have e: "absorb_residual z w = z3 (m_pos w) - z"
      using assms by (simp add: absorb_residual_def)
    have "z \<le> z3 (m_pos w) \<or> \<bar>z3 (m_pos w) - z\<bar> < EPSILON"
      using False assms by (auto simp: will_move_z_def split: if_splits)
    moreover have "0 < EPSILON" by (simp add: EPSILON_def)
    ultimately have "- EPSILON < z3 (m_pos w) - z" by linarith
    then show ?thesis by (simp add: e)
  qed
  show ?thesis
  proof (cases c)
    case (TravelToZ z cm)
    then show ?thesis using r [of z] by auto
  next
    case (TravelToXYZ p cm)
    then show ?thesis using r [of "z3 p"] by auto
  qed simp_all
qed

text \<open>
  With the exact subtraction of the reals every sequence of calls satisfies
  \<open>absorb_ok_run\<close>.
\<close>

lemma exact_absorb_ok_run:
  assumes "dsub (arith w) = (-)" and "hop_nonneg (config w)" and "lift_nonneg w"
  shows "absorb_ok_run cs w"
  using assms
proof (induction cs arbitrary: w)
  case Nil
  then show ?case by simp
next
  case (Cons c cs)
  have a: "absorb_ok c w" using Cons.prems(1) by (rule exact_absorb_ok)
  have i: "ieee_sub (arith w)" and s: "sub_monotone (arith w)"
    using Cons.prems(1) by (simp_all add: ieee_sub_def sub_monotone_def)
  show ?case
  proof (cases "exec c w")
    case None
    with a show ?thesis by simp
  next
    case (Some r)
    obtain g w1 where r: "r = (g, w1)" by (cases r)
    have "lift_kept w w1"
      using Some [unfolded r] i s Cons.prems(2,3) a by (rule exec_kept)
    then have "arith w1 = arith w" "config w1 = config w" "lift_nonneg w1"
      by (simp_all add: lift_kept_def)
    with Cons.prems have "absorb_ok_run cs w1" by (intro Cons.IH) simp_all
    with a Some r show ?thesis by simp
  qed
qed

























end
